theory Spec2Isabelle
  imports Complex_Main "HOL-Library.Sublist" "HOL-Library.AList"
begin

section \<open>Python values, strings and exceptions\<close>

text \<open>
  Exceptions are values. Synchronous library calls (the queries of the execution
  history, file operations) raise subclasses of \<open>Exception\<close>; such an exception is
  represented by its message \<open>str(e)\<close>. Awaited calls can in addition be interrupted by
  \<open>asyncio.CancelledError\<close>, which is a \<open>BaseException\<close> and passes through every
  \<open>except Exception\<close> handler of the source.
\<close>

type_synonym exn_msg = string

datatype py_exn = PyException exn_msg | PyTimeoutError | PyCancelledError

definition is_Exception :: "py_exn \<Rightarrow> bool" where
  "is_Exception e = (case e of PyCancelledError \<Rightarrow> False | _ \<Rightarrow> True)"

definition bind_exn :: "'e + 'a \<Rightarrow> ('a \<Rightarrow> 'e + 'b) \<Rightarrow> 'e + 'b" where
  "bind_exn m f = (case m of Inl e \<Rightarrow> Inl e | Inr x \<Rightarrow> f x)"

text \<open>
  Strings are byte strings (ASCII; a character beyond ASCII is its UTF-8 bytes).
  \<open>str.lower()\<close> maps the letters A to Z and leaves every other byte alone.
\<close>

definition char_lower :: "char \<Rightarrow> char" where
  "char_lower c =
     (case map_of (zip ''ABCDEFGHIJKLMNOPQRSTUVWXYZ'' ''abcdefghijklmnopqrstuvwxyz'') c of
        Some l \<Rightarrow> l
      | None \<Rightarrow> c)"

definition str_lower :: "string \<Rightarrow> string" where
  "str_lower s = map char_lower s"

text \<open>\<open>sub in s\<close> on strings: \<open>sub\<close> occurs in \<open>s\<close> as a contiguous run.\<close>

fun str_contains :: "string \<Rightarrow> string \<Rightarrow> bool" where
  "str_contains sub [] = (sub = [])"
| "str_contains sub (c # cs) = (prefix sub (c # cs) \<or> str_contains sub cs)"

text \<open>\<open>sep.join(xs)\<close>.\<close>

fun str_join :: "string \<Rightarrow> string list \<Rightarrow> string" where
  "str_join sep [] = []"
| "str_join sep [x] = x"
| "str_join sep (x # y # ys) = x @ sep @ str_join sep (y # ys)"

text \<open>\<open>str(n)\<close> of an integer, as the f-strings of the source print it.\<close>

definition digit_char :: "nat \<Rightarrow> char" where
  "digit_char d = ''0123456789'' ! d"

fun str_nat :: "nat \<Rightarrow> string" where
  "str_nat n = (if n < 10 then [digit_char n] else str_nat (n div 10) @ [digit_char (n mod 10)])"

declare str_nat.simps [simp del]

definition str_int :: "int \<Rightarrow> string" where
  "str_int i = (if i < 0 then CHR ''-'' # str_nat (nat (- i)) else str_nat (nat i))"

text \<open>
  The values a result dictionary holds. A dictionary is an association list in
  insertion order, each key once.
\<close>

datatype pyval =
    PNone
  | PBool bool
  | PInt int
  | PFloat real
  | PStr string
  | PList "pyval list"
  | PDict "(string \<times> pyval) list"

type_synonym pydict = "(string \<times> pyval) list"

text \<open>\<open>bool(v)\<close>, the truth value Python's \<open>if v\<close>, \<open>and\<close>, \<open>or\<close> and \<open>not\<close> test.\<close>

fun truthy :: "pyval \<Rightarrow> bool" where
  "truthy PNone = False"
| "truthy (PBool b) = b"
| "truthy (PInt i) = (i \<noteq> 0)"
| "truthy (PFloat r) = (r \<noteq> 0)"
| "truthy (PStr s) = (s \<noteq> [])"
| "truthy (PList xs) = (xs \<noteq> [])"
| "truthy (PDict d) = (d \<noteq> [])"

text \<open>\<open>a or b\<close> returns the operand that decides it.\<close>

definition py_or :: "pyval \<Rightarrow> pyval \<Rightarrow> pyval" where
  "py_or a b = (if truthy a then a else b)"

text \<open>\<open>d.get(k)\<close>, \<open>d.get(k, default)\<close>, \<open>d[k] = v\<close>, \<open>k in d\<close> and \<open>{**a, **b}\<close>.\<close>

definition dict_get :: "pydict \<Rightarrow> string \<Rightarrow> pyval" where
  "dict_get d k = (case map_of d k of None \<Rightarrow> PNone | Some v \<Rightarrow> v)"

definition dict_get_or :: "pydict \<Rightarrow> string \<Rightarrow> pyval \<Rightarrow> pyval" where
  "dict_get_or d k dflt = (case map_of d k of None \<Rightarrow> dflt | Some v \<Rightarrow> v)"

definition dict_set :: "pydict \<Rightarrow> string \<Rightarrow> pyval \<Rightarrow> pydict" where
  "dict_set d k v = AList.update k v d"

definition dict_has :: "pydict \<Rightarrow> string \<Rightarrow> bool" where
  "dict_has d k = (case map_of d k of None \<Rightarrow> False | Some v \<Rightarrow> True)"

definition dict_merge :: "pydict \<Rightarrow> pydict \<Rightarrow> pydict" where
  "dict_merge a b = fold (\<lambda>kv d. AList.update (fst kv) (snd kv) d) b a"

definition opt_str :: "string option \<Rightarrow> pyval" where
  "opt_str s = (case s of None \<Rightarrow> PNone | Some x \<Rightarrow> PStr x)"

definition opt_bool :: "bool option \<Rightarrow> pyval" where
  "opt_bool b = (case b of None \<Rightarrow> PNone | Some x \<Rightarrow> PBool x)"

section \<open>utils.py\<close>

definition empty_json_indicators :: "string list" where
  "empty_json_indicators =
     [''EOF while parsing'', ''Invalid JSON'', ''input_value='' @ [CHR 0x27, CHR 0x27],
      ''Expecting value'',
      ''No JSON object could be decoded'']"


definition is_empty_json_error :: "string \<Rightarrow> bool" where
  "is_empty_json_error error_message =
     (if error_message = [] then False
      else (let lowered = str_lower error_message
            in list_ex (\<lambda>indicator. str_contains (str_lower indicator) lowered)
                 empty_json_indicators))"

definition rate_limit_indicators :: "string list" where
  "rate_limit_indicators =
     [''rate limit'', ''rate_limit_exceeded'', ''quota exceeded'', ''too many requests'', ''429'']"

definition is_rate_limit_error :: "string \<Rightarrow> bool" where
  "is_rate_limit_error error_message =
     (if error_message = [] then False
      else (let lowered = str_lower error_message
            in list_ex (\<lambda>indicator. str_contains indicator lowered) rate_limit_indicators))"

definition nl :: string where
  "nl = [CHR 0x0A]"

definition rate_limit_base_msg :: string where
  "rate_limit_base_msg =
     ''OpenAI API rate limit reached. Your account exceeded the allowed requests.''"

definition empty_json_base_msg :: string where
  "empty_json_base_msg =
     ''OpenAI returned an empty or malformed response. This is usually a transient issue.''"

definition format_openai_error_message :: "string \<Rightarrow> string \<Rightarrow> string" where
  "format_openai_error_message original_error error_type =
     (let base_msg =
            (if error_type = ''empty_json'' then empty_json_base_msg
             else if error_type = ''rate_limit'' then rate_limit_base_msg
             else ''OpenAI error: '' @ take 100 original_error);
          suggestions =
            (if error_type = ''empty_json'' then
               [''Retry the task (very likely to succeed)'',
                ''Check OpenAI status page for outages'',
                ''Ensure your API key has remaining quota'']
             else if error_type = ''rate_limit'' then
               [''Wait a few minutes and retry'',
                ''Upgrade the OpenAI plan for higher limits'',
                ''Switch to Gemini (no rate limits on free tier)'']
             else
               [''Retry the task'',
                ''Try a different OpenAI model'',
                ''Check OpenAI status page for outages'']);
          formatted = base_msg @ nl @ nl @ ''Suggestions:'' @ nl;
          formatted = formatted @ str_join nl (map (\<lambda>tip. ''  - '' @ tip) suggestions)
      in if original_error \<noteq> [] then
           formatted @ nl @ nl @ ''Original error: '' @ take 200 original_error
         else formatted)"

section \<open>models.py\<close>

text \<open>
  The fields of \<open>TaskRequest\<close> that the modelled functions read; the others (model names,
  vision mode, per-call timeouts, viewport) only reach the log and the collaborators.
\<close>

record task_request =
  task :: string
  task_id :: "string option"
  llm_provider :: string
  max_steps :: int
  generate_gif :: bool
  timeout :: int
  calculate_cost :: bool
  debug_mode :: bool
  save_conversation :: bool
  customer_id :: "int option"
  session_enabled :: bool

record task_response =
  r_task_id :: string
  r_success :: bool
  r_result :: "string option"
  r_final_url :: "string option"
  r_urls_visited :: "string list"
  r_steps_taken :: int
  r_execution_time :: real
  r_gif_path :: "string option"
  r_error :: "string option"
  r_judge_verdict :: "string option"
  r_cost :: "real option"
  r_cost_currency :: string
  r_llm_calls :: int
  r_debug_data :: "pydict option"
  r_conversation_path :: "string option"
  r_downloaded_files :: "string list"

text \<open>\<open>TaskResponse(task_id=..., success=...)\<close> with every other field at its default.\<close>

definition TaskResponse :: "string \<Rightarrow> bool \<Rightarrow> task_response" where
  "TaskResponse tid ok =
     \<lparr> r_task_id = tid, r_success = ok, r_result = None, r_final_url = None,
       r_urls_visited = [], r_steps_taken = 0, r_execution_time = 0, r_gif_path = None,
       r_error = None, r_judge_verdict = None, r_cost = None, r_cost_currency = ''USD'',
       r_llm_calls = 0, r_debug_data = None, r_conversation_path = None,
       r_downloaded_files = [] \<rparr>"

text \<open>
  The model validates each keyword argument against the field's declared type and
  raises a validation error otherwise. (The aggregator only produces values of the
  declared types, so the coercions of the validator's lax mode are not modelled.)
\<close>

definition validation_error :: exn_msg where
  "validation_error = ''validation error for TaskResponse''"

fun v_bool :: "pyval \<Rightarrow> exn_msg + bool" where
  "v_bool (PBool b) = Inr b"
| "v_bool _ = Inl validation_error"

fun v_int :: "pyval \<Rightarrow> exn_msg + int" where
  "v_int (PInt i) = Inr i"
| "v_int _ = Inl validation_error"

fun v_str :: "pyval \<Rightarrow> exn_msg + string" where
  "v_str (PStr s) = Inr s"
| "v_str _ = Inl validation_error"

fun v_opt_str :: "pyval \<Rightarrow> exn_msg + string option" where
  "v_opt_str PNone = Inr None"
| "v_opt_str (PStr s) = Inr (Some s)"
| "v_opt_str _ = Inl validation_error"

fun v_opt_float :: "pyval \<Rightarrow> exn_msg + real option" where
  "v_opt_float PNone = Inr None"
| "v_opt_float (PFloat r) = Inr (Some r)"
| "v_opt_float (PInt i) = Inr (Some (of_int i))"
| "v_opt_float _ = Inl validation_error"

fun v_opt_dict :: "pyval \<Rightarrow> exn_msg + pydict option" where
  "v_opt_dict PNone = Inr None"
| "v_opt_dict (PDict d) = Inr (Some d)"
| "v_opt_dict _ = Inl validation_error"

fun v_strs :: "pyval list \<Rightarrow> exn_msg + string list" where
  "v_strs [] = Inr []"
| "v_strs (PStr s # xs) = bind_exn (v_strs xs) (\<lambda>ys. Inr (s # ys))"
| "v_strs (_ # xs) = Inl validation_error"

fun v_str_list :: "pyval \<Rightarrow> exn_msg + string list" where
  "v_str_list (PList xs) = v_strs xs"
| "v_str_list _ = Inl validation_error"

section \<open>The execution history (collaborator interface)\<close>

text \<open>
  The history object is read through method calls, each of which returns a value or
  raises, and through attributes that the object has or lacks (\<open>hasattr\<close>).
\<close>

datatype 'a attr = NoAttr | Attr 'a

datatype num_attr = NumNone | NumInt int | NumFloat real

text \<open>\<open>float(v)\<close>: \<open>float(None)\<close> raises a TypeError.\<close>

fun py_float :: "num_attr \<Rightarrow> exn_msg + real" where
  "py_float NumNone = Inl ''float() argument must be a string or a real number''"
| "py_float (NumInt i) = Inr (of_int i)"
| "py_float (NumFloat r) = Inr r"

record usage_summary =
  total_cost :: "num_attr attr"
  cost :: "num_attr attr"
  input_tokens :: "num_attr attr"
  output_tokens :: "num_attr attr"

record model_thought =
  thought_str :: string
  thought_action :: "pyval attr"
  thought_reasoning :: "pyval attr"

datatype jval = JNone | JBool bool | JStr string

type_synonym judgement_dict = "(string \<times> jval) list"

record history =
  errors :: "exn_msg + string option list"
  final_result :: "exn_msg + string option"
  is_done :: "exn_msg + bool"
  is_successful :: "exn_msg + bool option"
  has_errors :: "exn_msg + bool"
  urls :: "exn_msg + string list"
  number_of_steps :: "exn_msg + int"
  total_duration_seconds :: "exn_msg + real"
  judgement :: "(exn_msg + judgement_dict option) attr"
  usage :: "usage_summary option attr"
  extracted_content :: "(exn_msg + pyval list) attr"
  model_thoughts :: "(exn_msg + model_thought list) attr"

section \<open>result\_processing.py: the aggregator\<close>

fun jtruthy :: "jval \<Rightarrow> bool" where
  "jtruthy JNone = False"
| "jtruthy (JBool b) = b"
| "jtruthy (JStr s) = (s \<noteq> [])"

fun jstr :: "jval \<Rightarrow> string" where
  "jstr JNone = ''None''"
| "jstr (JBool b) = (if b then ''True'' else ''False'')"
| "jstr (JStr s) = s"

definition jget :: "judgement_dict \<Rightarrow> string \<Rightarrow> jval" where
  "jget d k = (case map_of d k of None \<Rightarrow> JNone | Some v \<Rightarrow> v)"

text \<open>The pictographs of the verdict text, as the bytes of the source file.\<close>

definition glyph_pass :: string where
  "glyph_pass = [CHR 0xC3, CHR 0xA2, CHR 0xC5, CHR 0x93, CHR 0xE2, CHR 0x80, CHR 0xA6]"

definition glyph_fail :: string where
  "glyph_fail = [CHR 0xC3, CHR 0xA2, CHR 0xC5, CHR 0x92]"

definition glyph_scales :: string where
  "glyph_scales = [CHR 0xC3, CHR 0xA2, CHR 0xC5, CHR 0xA1, CHR 0xE2, CHR 0x80, CHR 0x93, CHR 0xC3, CHR 0xAF, CHR 0xC2, CHR 0xB8]"

definition glyph_warning :: string where
  "glyph_warning = [CHR 0xC3, CHR 0xA2, CHR 0xC5, CHR 0xA1, CHR 0xC2, CHR 0xA0, CHR 0xC3, CHR 0xAF, CHR 0xC2, CHR 0xB8]"

definition glyph_robot :: string where
  "glyph_robot = [CHR 0xC4, CHR 0x9F, CHR 0xC5, CHR 0xB8, CHR 0xC2, CHR 0xA4, CHR 0xE2, CHR 0x80, CHR 0x93]"

definition format_judge_verdict :: "judgement_dict \<Rightarrow> string" where
  "format_judge_verdict jd =
     (let verdict = jtruthy (jget jd ''verdict'');
          verdict_emoji = (if verdict then glyph_pass else glyph_fail);
          verdict_status = (if verdict then ''PASS'' else ''FAIL'');
          judge_parts =
            [glyph_scales @ ''  Judge Verdict: '' @ verdict_emoji @ '' '' @ verdict_status];
          reasoning = jget jd ''reasoning'';
          judge_parts =
            (if jtruthy reasoning then judge_parts @ [''Reasoning: '' @ jstr reasoning]
             else judge_parts);
          failure_reason = jget jd ''failure_reason'';
          judge_parts =
            (if jtruthy failure_reason
             then judge_parts @ [''Failure Reason: '' @ jstr failure_reason]
             else judge_parts);
          judge_parts =
            (if jtruthy (jget jd ''impossible_task'')
             then judge_parts @ [glyph_warning @ '' Task was impossible to complete'']
             else judge_parts);
          judge_parts =
            (if jtruthy (jget jd ''reached_captcha'')
             then judge_parts @ [glyph_robot @ '' Encountered CAPTCHA'']
             else judge_parts)
      in str_join nl judge_parts)"

text \<open>\<open>[str(e) for e in history.errors() if e]\<close>\<close>

fun truthy_errors :: "string option list \<Rightarrow> string list" where
  "truthy_errors [] = []"
| "truthy_errors (None # es) = truthy_errors es"
| "truthy_errors (Some e # es) = (if e = [] then truthy_errors es else e # truthy_errors es)"

text \<open>
  The verdict block of \<open>extract_basic_results\<close>: the whole block stands in
  \<open>try ... except Exception\<close>, so a raising query leaves \<open>judge_verdict = None\<close>.
\<close>

definition extract_judge_verdict :: "history \<Rightarrow> string option" where
  "extract_judge_verdict h =
     (case judgement h of
        NoAttr \<Rightarrow> None
      | Attr (Inl e) \<Rightarrow> None
      | Attr (Inr None) \<Rightarrow> None
      | Attr (Inr (Some jd)) \<Rightarrow> (if jd \<noteq> [] then Some (format_judge_verdict jd) else None))"

definition extract_basic_results ::
  "history \<Rightarrow> task_request \<Rightarrow> string option \<Rightarrow> exn_msg + pydict" where
  "extract_basic_results h request gif_path =
     bind_exn (errors h) (\<lambda>raw.
       let errs = truthy_errors raw;
           scan = (errs \<noteq> [] \<and> llm_provider request = ''openai'');
           openai_empty_json = (scan \<and> list_ex is_empty_json_error errs);
           openai_rate_limit = (scan \<and> list_ex is_rate_limit_error errs)
       in
       bind_exn (final_result h) (\<lambda>fr.
       bind_exn (is_done h) (\<lambda>dn.
       bind_exn (is_successful h) (\<lambda>sc.
       bind_exn (has_errors h) (\<lambda>he.
       bind_exn (urls h) (\<lambda>us.
       bind_exn (number_of_steps h) (\<lambda>n.
       bind_exn (total_duration_seconds h) (\<lambda>dur.
         let result =
               [(''final_result'', opt_str fr),
                (''is_done'', PBool dn),
                (''is_successful'', opt_bool sc),
                (''has_errors'', PBool he),
                (''urls'', PList (map PStr us)),
                (''steps'', PInt n),
                (''duration'', PFloat dur),
                (''errors'', PList (map PStr errs)),
                (''openai_empty_json'', PBool openai_empty_json),
                (''openai_rate_limit'', PBool openai_rate_limit)];
             result = dict_set result ''judge_verdict'' (opt_str (extract_judge_verdict h))
         in Inr (case gif_path of
                   Some g \<Rightarrow>
                     (if generate_gif request then dict_set result ''gif_path'' (PStr g)
                      else result)
                 | None \<Rightarrow> result)))))))))"

text \<open>
  The body of the \<open>try\<close> of \<open>extract_cost_data\<close>: the dictionary as written so far,
  and the exception that interrupted the body, if any.
\<close>

definition usage_cost :: "usage_summary \<Rightarrow> pydict \<times> exn_msg option" where
  "usage_cost u =
     (case total_cost u of
        Attr v \<Rightarrow>
          (case py_float v of
             Inl e \<Rightarrow> ([], Some e)
           | Inr x \<Rightarrow> ([(''cost'', PFloat x), (''cost_currency'', PStr ''USD'')], None))
      | NoAttr \<Rightarrow>
          (case cost u of
             Attr v \<Rightarrow>
               (case py_float v of
                  Inl e \<Rightarrow> ([], Some e)
                | Inr x \<Rightarrow> ([(''cost'', PFloat x), (''cost_currency'', PStr ''USD'')], None))
           | NoAttr \<Rightarrow> ([], None)))"

definition usage_tokens :: "usage_summary \<Rightarrow> pydict \<Rightarrow> pydict" where
  "usage_tokens u cost_data =
     (if input_tokens u \<noteq> NoAttr \<and> output_tokens u \<noteq> NoAttr
      then dict_set cost_data ''llm_calls'' (PInt 1) else cost_data)"

definition cost_try_body :: "history \<Rightarrow> pydict \<times> exn_msg option" where
  "cost_try_body h =
     (let step1 =
            (case usage h of
               Attr (Some u) \<Rightarrow>
                 (case usage_cost u of
                    (cd, Some e) \<Rightarrow> (cd, Some e)
                  | (cd, None) \<Rightarrow> (usage_tokens u cd, None))
             | _ \<Rightarrow> ([], None))
      in case step1 of
           (cd, Some e) \<Rightarrow> (cd, Some e)
         | (cd, None) \<Rightarrow>
             (if \<not> dict_has cd ''cost'' \<or> dict_get cd ''cost'' = PNone then
                (let cd = dict_set cd ''cost'' PNone
                 in case number_of_steps h of
                      Inl e \<Rightarrow> (cd, Some e)
                    | Inr n \<Rightarrow> (dict_set cd ''llm_calls'' (PInt n), None))
              else (cd, None)))"

definition extract_cost_data :: "history \<Rightarrow> task_request \<Rightarrow> exn_msg + pydict" where
  "extract_cost_data h request =
     (if calculate_cost request then
        (case cost_try_body h of
           (cd, None) \<Rightarrow> Inr cd
         | (cd, Some e) \<Rightarrow>
             (let cd = dict_set cd ''cost'' PNone
              in bind_exn (number_of_steps h) (\<lambda>n. Inr (dict_set cd ''llm_calls'' (PInt n)))))
      else Inr [(''cost'', PNone), (''llm_calls'', PInt 0)])"

definition attr_or_none :: "pyval attr \<Rightarrow> pyval" where
  "attr_or_none a = (case a of NoAttr \<Rightarrow> PNone | Attr v \<Rightarrow> v)"

text \<open>\<open>enumerate(thoughts, 1)\<close> with the dictionary built for each thought.\<close>

fun thought_dicts :: "int \<Rightarrow> model_thought list \<Rightarrow> pyval list" where
  "thought_dicts i [] = []"
| "thought_dicts i (t # ts) =
     PDict [(''step'', PInt i),
            (''thought'', PStr (thought_str t)),
            (''action'', attr_or_none (thought_action t)),
            (''reasoning'', attr_or_none (thought_reasoning t))]
       # thought_dicts (i + 1) ts"

definition extract_debug_data :: "history \<Rightarrow> task_request \<Rightarrow> exn_msg + pydict" where
  "extract_debug_data h request =
     (if \<not> debug_mode request then Inr [(''debug_data'', PNone)]
      else
        (let debug_data = [];
             debug_data =
               (case extracted_content h of
                  NoAttr \<Rightarrow> debug_data
                | Attr (Inl e) \<Rightarrow> dict_set debug_data ''extracted_content'' (PList [])
                | Attr (Inr xs) \<Rightarrow> dict_set debug_data ''extracted_content'' (PList xs));
             debug_data =
               (case model_thoughts h of
                  NoAttr \<Rightarrow> debug_data
                | Attr (Inl e) \<Rightarrow> dict_set debug_data ''model_thoughts'' (PList [])
                | Attr (Inr ts) \<Rightarrow>
                    dict_set debug_data ''model_thoughts'' (PList (thought_dicts 1 ts)))
         in
         bind_exn (total_duration_seconds h) (\<lambda>dur.
         bind_exn (number_of_steps h) (\<lambda>n.
         bind_exn (urls h) (\<lambda>us.
         bind_exn (has_errors h) (\<lambda>he.
           Inr [(''debug_data'',
                 PDict (dict_set debug_data ''performance''
                   (PDict [(''total_duration'', PFloat dur),
                           (''steps'', PInt n),
                           (''urls_visited'', PInt (int (length us))),
                           (''has_errors'', PBool he)])))]))))))"

definition assemble_final_result ::
  "pydict \<Rightarrow> pydict \<Rightarrow> pydict \<Rightarrow> string list \<Rightarrow> string option \<Rightarrow> pydict" where
  "assemble_final_result basic_result cost_data debug_data downloaded_files conversation_path =
     (let result = dict_merge (dict_merge basic_result cost_data) debug_data;
          result = dict_set result ''downloaded_files'' (PList (map PStr downloaded_files));
          result = dict_set result ''conversation_path'' (opt_str conversation_path)
      in result)"

text \<open>
  The aggregation that ends \<open>run_agent_task\<close> (the three extractions and the
  assembly, in the order of the source): it returns the report or the exception that
  escaped an extraction.
\<close>

definition aggregate ::
  "history \<Rightarrow> task_request \<Rightarrow> string option \<Rightarrow> string list \<Rightarrow> string option
     \<Rightarrow> exn_msg + pydict" where
  "aggregate h request gif_path downloaded_files conversation_path =
     bind_exn (extract_basic_results h request gif_path) (\<lambda>basic_result.
     bind_exn (extract_cost_data h request) (\<lambda>cost_data.
     bind_exn (extract_debug_data h request) (\<lambda>debug_result.
       Inr (assemble_final_result basic_result cost_data debug_result
              downloaded_files conversation_path))))"


section \<open>browser\_api.py: the task registry, execution and cancellation\<close>

record agent_handle =
  get_current_state :: "exn_msg + string option"

record process_handle =
  send_signal :: "exn_msg + unit"

record browser_task =
  bt_task_id :: string
  bt_agent :: "agent_handle option"
  bt_browser_process :: "process_handle option"
  bt_status :: string
  bt_partial_result :: "string option"
  bt_cancelled :: bool

definition BrowserTask :: "string \<Rightarrow> agent_handle option \<Rightarrow> browser_task" where
  "BrowserTask tid agent =
     \<lparr> bt_task_id = tid, bt_agent = agent, bt_browser_process = None,
       bt_status = ''running'', bt_partial_result = None, bt_cancelled = False \<rparr>"

text \<open>
  \<open>BrowserTask.cancel\<close>: the signal to the browser process is sent inside
  \<open>try ... except Exception\<close>, so its outcome changes nothing in the object.
\<close>

definition cancel :: "browser_task \<Rightarrow> browser_task" where
  "cancel bt = bt\<lparr> bt_cancelled := True, bt_status := ''cancelled'' \<rparr>"

definition get_partial_result :: "browser_task \<Rightarrow> exn_msg + string option" where
  "get_partial_result bt =
     (case bt_agent bt of
        Some agent \<Rightarrow> get_current_state agent
      | None \<Rightarrow> Inr (bt_partial_result bt))"

text \<open>
  The process-wide state: \<open>BrowserTask\<close> objects live at addresses of a heap (an
  object is shared between the registry and the local variable of the request that
  created it), and \<open>active_tasks\<close> maps a task id to the address of its object.
\<close>

record api_state =
  heap :: "nat \<Rightarrow> browser_task"
  next_addr :: nat
  active_tasks :: "string \<rightharpoonup> nat"

definition initial_state :: api_state where
  "initial_state =
     \<lparr> heap = (\<lambda>a. BrowserTask [] None), next_addr = 0, active_tasks = Map.empty \<rparr>"

text \<open>
  What one call of \<open>execute_task\<close> meets: the identifier \<open>uuid4\<close> yields, the
  readings of \<open>time.time()\<close> in call order, and the outcome of
  \<open>await asyncio.wait_for(run_agent_task(request), timeout=request.timeout)\<close>:
  the result dictionary, \<open>TimeoutError\<close> once the deadline has passed, or the
  exception the task body raised.
\<close>

record exec_env =
  uuid_hex :: string
  clock :: "nat \<Rightarrow> real"
  wait_outcome :: "py_exn + pydict"

text \<open>\<open>task_id = request.task_id or f"browser_{uuid.uuid4().hex[:12]}"\<close>\<close>

definition request_task_id :: "task_request \<Rightarrow> exec_env \<Rightarrow> string" where
  "request_task_id request env =
     (case task_id request of
        Some t \<Rightarrow> (if t \<noteq> [] then t else ''browser_'' @ take 12 (uuid_hex env))
      | None \<Rightarrow> ''browser_'' @ take 12 (uuid_hex env))"

text \<open>Registration (the first two statements of the \<open>try\<close>): a new object, stored
  under the task id, replacing whatever the id named before.\<close>

definition register_task :: "string \<Rightarrow> api_state \<Rightarrow> nat \<times> api_state" where
  "register_task tid st =
     (let a = next_addr st
      in (a, st\<lparr> heap := (heap st)(a := BrowserTask tid None),
                 next_addr := Suc a,
                 active_tasks := (active_tasks st)(tid \<mapsto> a) \<rparr>))"

text \<open>\<open>"; ".join(error_messages)\<close> for the iterables a result value can be.\<close>

fun py_join :: "string \<Rightarrow> pyval \<Rightarrow> exn_msg + string" where
  "py_join sep (PList xs) =
     (case v_strs xs of
        Inl e \<Rightarrow> Inl ''sequence item: expected str instance''
      | Inr ss \<Rightarrow> Inr (str_join sep ss))"
| "py_join sep (PStr s) = Inr (str_join sep (map (\<lambda>c. [c]) s))"
| "py_join sep (PDict d) = Inr (str_join sep (map fst d))"
| "py_join sep _ = Inl ''can only join an iterable''"

text \<open>\<open>v[-1]\<close> for a truthy value \<open>v\<close>.\<close>

fun py_last :: "pyval \<Rightarrow> exn_msg + pyval" where
  "py_last (PList xs) = (if xs = [] then Inl ''list index out of range'' else Inr (last xs))"
| "py_last (PStr s) = (if s = [] then Inl ''string index out of range'' else Inr (PStr [last s]))"
| "py_last (PDict d) = Inl ''KeyError: -1''"
| "py_last _ = Inl ''object is not subscriptable''"

text \<open>The success flag of a completed execution.\<close>

definition determine_success :: "pydict \<Rightarrow> pyval" where
  "determine_success result =
     (let success = dict_get result ''is_successful''
      in if success = PNone then
           (let is_done = dict_get_or result ''is_done'' (PBool False);
                has_result = truthy (dict_get result ''final_result'');
                has_errors = dict_get_or result ''has_errors'' (PBool False)
            in py_or is_done (PBool (has_result \<and> \<not> truthy has_errors)))
         else success)"

text \<open>The error text of a completed execution.\<close>

definition response_error :: "pydict \<Rightarrow> exn_msg + pyval" where
  "response_error result =
     (let error_messages = dict_get_or result ''errors'' (PList [])
      in if truthy error_messages then
           bind_exn (py_join ''; '' error_messages) (\<lambda>joined_errors.
             if truthy (dict_get result ''openai_rate_limit'') then
               Inr (PStr (format_openai_error_message joined_errors ''rate_limit''))
             else if truthy (dict_get result ''openai_empty_json'') then
               Inr (PStr (format_openai_error_message joined_errors ''empty_json''))
             else Inr (PStr joined_errors))
         else Inr PNone)"

text \<open>
  The path of \<open>execute_task\<close> after the awaited body has returned and the task was
  not cancelled: everything up to the final \<open>TaskResponse(...)\<close>. An exception
  raised here is caught by the handlers of the enclosing \<open>try\<close>.
\<close>

definition respond_completed ::
  "string \<Rightarrow> real \<Rightarrow> pydict \<Rightarrow> exn_msg + task_response" where
  "respond_completed tid execution_time result =
     (let success = determine_success result
      in
      bind_exn (response_error result) (\<lambda>error.
      bind_exn (if truthy (dict_get result ''urls'')
                then py_last (dict_get_or result ''urls'' (PList [PNone]))
                else Inr PNone) (\<lambda>final_url.
      bind_exn (v_bool success) (\<lambda>v_success.
      bind_exn (v_opt_str (dict_get result ''final_result'')) (\<lambda>v_result.
      bind_exn (v_opt_str final_url) (\<lambda>v_final_url.
      bind_exn (v_str_list (dict_get_or result ''urls'' (PList []))) (\<lambda>v_urls.
      bind_exn (v_int (dict_get_or result ''steps'' (PInt 0))) (\<lambda>v_steps.
      bind_exn (v_opt_str (dict_get result ''gif_path'')) (\<lambda>v_gif.
      bind_exn (v_opt_str error) (\<lambda>v_error.
      bind_exn (v_opt_str (dict_get result ''judge_verdict'')) (\<lambda>v_judge.
      bind_exn (v_opt_float (dict_get result ''cost'')) (\<lambda>v_cost.
      bind_exn (v_str (dict_get_or result ''cost_currency'' (PStr ''USD''))) (\<lambda>v_currency.
      bind_exn (v_int (dict_get_or result ''llm_calls'' (PInt 0))) (\<lambda>v_calls.
      bind_exn (v_opt_dict (dict_get result ''debug_data'')) (\<lambda>v_debug.
      bind_exn (v_opt_str (dict_get result ''conversation_path'')) (\<lambda>v_conv.
      bind_exn (v_str_list (dict_get_or result ''downloaded_files'' (PList []))) (\<lambda>v_files.
        Inr \<lparr> r_task_id = tid, r_success = v_success, r_result = v_result,
              r_final_url = v_final_url, r_urls_visited = v_urls, r_steps_taken = v_steps,
              r_execution_time = execution_time, r_gif_path = v_gif, r_error = v_error,
              r_judge_verdict = v_judge, r_cost = v_cost, r_cost_currency = v_currency,
              r_llm_calls = v_calls, r_debug_data = v_debug, r_conversation_path = v_conv,
              r_downloaded_files = v_files \<rparr>)))))))))))))))))"

text \<open>
  The three responses that do not come from a result dictionary. The response for a
  cancelled task is built without \<open>execution_time\<close>; its keyword \<open>partial_result\<close>
  is no field of \<open>TaskResponse\<close> and is dropped by the model class.
\<close>

definition cancelled_response :: "string \<Rightarrow> task_response" where
  "cancelled_response tid = (TaskResponse tid False)\<lparr> r_error := Some ''Task cancelled'' \<rparr>"

definition timeout_response :: "task_request \<Rightarrow> string \<Rightarrow> real \<Rightarrow> task_response" where
  "timeout_response request tid execution_time =
     (TaskResponse tid False)
       \<lparr> r_error := Some (''Task timed out after '' @ str_int (timeout request) @ '' seconds''),
         r_execution_time := execution_time \<rparr>"

definition failure_response :: "string \<Rightarrow> exn_msg \<Rightarrow> real \<Rightarrow> task_response" where
  "failure_response tid msg execution_time =
     (TaskResponse tid False)\<lparr> r_error := Some msg, r_execution_time := execution_time \<rparr>"

text \<open>
  The rest of \<open>execute_task\<close>, from the return of the \<open>await\<close> on: \<open>a\<close> is the
  address of the object this request registered, \<open>st\<close> the state at that moment
  (cancellation requests may have run while the body was awaited). \<open>clock env 0\<close> is
  \<open>start_time\<close>; each later \<open>time.time()\<close> takes the next reading.
\<close>

definition finish_task ::
  "task_request \<Rightarrow> exec_env \<Rightarrow> string \<Rightarrow> nat \<Rightarrow> api_state \<Rightarrow> py_exn + task_response" where
  "finish_task request env tid a st =
     (case wait_outcome env of
        Inr result \<Rightarrow>
          (if bt_cancelled (heap st a) then
             (case get_partial_result (heap st a) of
                Inr partial \<Rightarrow> Inr (cancelled_response tid)
              | Inl msg \<Rightarrow> Inr (failure_response tid msg (clock env 1 - clock env 0)))
           else
             (case respond_completed tid (clock env 1 - clock env 0) result of
                Inr response \<Rightarrow> Inr response
              | Inl msg \<Rightarrow> Inr (failure_response tid msg (clock env 2 - clock env 0))))
      | Inl PyTimeoutError \<Rightarrow>
          Inr (timeout_response request tid (clock env 1 - clock env 0))
      | Inl (PyException msg) \<Rightarrow>
          Inr (failure_response tid msg (clock env 1 - clock env 0))
      | Inl PyCancelledError \<Rightarrow> Inl PyCancelledError)"

text \<open>One request served without any other request running in between.\<close>

definition execute_task ::
  "task_request \<Rightarrow> exec_env \<Rightarrow> api_state \<Rightarrow> (py_exn + task_response) \<times> api_state" where
  "execute_task request env st =
     (let tid = request_task_id request env;
          (a, st') = register_task tid st
      in (finish_task request env tid a st', st'))"

text \<open>
  \<open>cancel_browser_task\<close>: the dictionary returned to the caller (or the exception
  that escapes the endpoint) and the state afterwards.
\<close>

definition cancel_browser_task ::
  "string \<Rightarrow> api_state \<Rightarrow> (exn_msg + pydict) \<times> api_state" where
  "cancel_browser_task tid st =
     (case active_tasks st tid of
        None \<Rightarrow>
          (Inr [(''success'', PBool False),
                (''error'', PStr ''Task not found or already completed''),
                (''task_id'', PStr tid)], st)
      | Some a \<Rightarrow>
          (let st' = st\<lparr> heap := (heap st)(a := cancel (heap st a)) \<rparr>
           in (bind_exn (get_partial_result (heap st' a)) (\<lambda>partial.
                 Inr [(''success'', PBool True),
                      (''task_id'', PStr tid),
                      (''message'', PStr ''Task cancelled''),
                      (''partial_result'', opt_str partial)]), st')))"

section \<open>Auxiliary notions and sample inputs\<close>

definition keys_within :: "string set \<Rightarrow> pydict \<Rightarrow> bool" where
  "keys_within K d = (distinct (map fst d) \<and> fst ` set d \<subseteq> K)"

definition cost_keys :: "string set" where
  "cost_keys = {''cost'', ''cost_currency'', ''llm_calls''}"

definition cost_typed :: "pydict \<Rightarrow> bool" where
  "cost_typed cd =
     ((map_of cd ''cost'' = Some PNone \<or> (\<exists>x. map_of cd ''cost'' = Some (PFloat x))) \<and>
      (map_of cd ''cost_currency'' = None \<or> map_of cd ''cost_currency'' = Some (PStr ''USD'')) \<and>
      (map_of cd ''llm_calls'' = None \<or> (\<exists>i. map_of cd ''llm_calls'' = Some (PInt i))))"

definition history0 :: history where
  "history0 =
     \<lparr> errors = Inr [None, Some ''Error code: 429 rate_limit_exceeded''],
       final_result = Inr (Some ''done''),
       is_done = Inr True,
       is_successful = Inr None,
       has_errors = Inr True,
       urls = Inr [''https://example.com/''],
       number_of_steps = Inr 3,
       total_duration_seconds = Inr 12,
       judgement = Attr (Inl ''judge unavailable''),
       usage = Attr (Some \<lparr> total_cost = NoAttr, cost = NoAttr,
                             input_tokens = Attr (NumInt 10), output_tokens = Attr (NumInt 5) \<rparr>),
       extracted_content = Attr (Inr [PStr ''page text'']),
       model_thoughts = NoAttr \<rparr>"

definition request0 :: task_request where
  "request0 =
     \<lparr> task = ''open the page'', task_id = Some ''t1'', llm_provider = ''openai'',
       max_steps = 100, generate_gif = False, timeout = 30, calculate_cost = True,
       debug_mode = True, save_conversation = False, customer_id = None,
       session_enabled = True \<rparr>"

definition report0 :: pydict where
  "report0 =
     [(''final_result'', PStr ''done''), (''is_done'', PBool True),
      (''is_successful'', PNone), (''has_errors'', PBool True),
      (''urls'', PList [PStr ''https://example.com/'']),
      (''steps'', PInt 3), (''duration'', PFloat 12),
      (''errors'', PList [PStr ''Error code: 429 rate_limit_exceeded'']),
      (''openai_empty_json'', PBool False),
      (''openai_rate_limit'', PBool True), (''judge_verdict'', PNone),
      (''llm_calls'', PInt 3), (''cost'', PNone),
      (''debug_data'',
       PDict
        [(''extracted_content'', PList [PStr ''page text'']),
         (''performance'',
          PDict
           [(''total_duration'', PFloat 12), (''steps'', PInt 3),
            (''urls_visited'', PInt 1), (''has_errors'', PBool True)])]),
      (''downloaded_files'', PList []), (''conversation_path'', PNone)]"

definition env0 :: exec_env where
  "env0 =
     \<lparr> uuid_hex = ''0123456789abcdef0123456789abcdef'',
       clock = (\<lambda>i. 100 + 12 * real i),
       wait_outcome = Inr report0 \<rparr>"


section \<open>agent\_runner.py: the task body\<close>

text \<open>
  \<open>run_agent_task\<close> is modelled by its control flow. Each call it makes to a
  collaborator (LLM factory, directory setup, browser, agent, download reconciliation)
  has an outcome given by the environment: the value returned or the exception raised
  (\<open>CancelledError\<close> when the deadline of \<open>wait_for\<close> cancels the body at that
  await). The function yields the trace of the calls that matter for the browser's
  life cycle, in the order they were made, and its result or the exception that left it.
\<close>

datatype event =
    BrowserStart
  | RestoreSessionStorage
  | CreateAgent
  | AgentRun
  | ExportStorageState
  | ExportSessionStorage
  | BrowserStop
  | HandleDownloads

record agent_env =
  setup_llms_out :: "py_exn + unit"
  setup_directories_out :: "py_exn + string option"
  setup_browser_profile_out :: "py_exn + unit"
  create_browser_out :: "py_exn + unit"
  browser_start_out :: "py_exn + unit"
  restore_session_storage_out :: "py_exn + unit"
  create_agent_out :: "py_exn + string option"
  agent_run_out :: "py_exn + history"
  export_storage_state_out :: "py_exn + unit"
  export_session_storage_out :: "py_exn + unit"
  browser_stop_out :: "py_exn + unit"
  handle_downloads_out :: "py_exn + string list"

text \<open>
  The body of the \<open>try\<close>: the agent runs; with session persistence enabled (both
  paths are set) the storage state is exported and then the session storage, inside
  \<open>try ... except Exception\<close>.
\<close>

definition try_body :: "task_request \<Rightarrow> agent_env \<Rightarrow> event list \<times> (py_exn + history)" where
  "try_body request env =
     (case agent_run_out env of
        Inl e \<Rightarrow> ([AgentRun], Inl e)
      | Inr h \<Rightarrow>
          (if session_enabled request then
             (case export_storage_state_out env of
                Inl e \<Rightarrow>
                  ([AgentRun, ExportStorageState], if is_Exception e then Inr h else Inl e)
              | Inr u \<Rightarrow>
                  (case export_session_storage_out env of
                     Inl e \<Rightarrow>
                       ([AgentRun, ExportStorageState, ExportSessionStorage],
                        if is_Exception e then Inr h else Inl e)
                   | Inr u \<Rightarrow>
                       ([AgentRun, ExportStorageState, ExportSessionStorage], Inr h)))
           else ([AgentRun], Inr h)))"

text \<open>
  The \<open>finally\<close> clause: \<open>browser.stop()\<close> is called inside
  \<open>try ... except Exception\<close>; an exception of another kind replaces the outcome
  of the body.
\<close>

definition finally_stop ::
  "agent_env \<Rightarrow> event list \<times> (py_exn + history) \<Rightarrow> event list \<times> (py_exn + history)" where
  "finally_stop env body =
     (fst body @ [BrowserStop],
      case browser_stop_out env of
        Inr u \<Rightarrow> snd body
      | Inl e \<Rightarrow> (if is_Exception e then snd body else Inl e))"

definition raise_from :: "exn_msg + 'a \<Rightarrow> py_exn + 'a" where
  "raise_from r = (case r of Inl msg \<Rightarrow> Inl (PyException msg) | Inr x \<Rightarrow> Inr x)"

definition run_agent_task ::
  "task_request \<Rightarrow> agent_env \<Rightarrow> event list \<times> (py_exn + pydict)" where
  "run_agent_task request env =
     (case setup_llms_out env of
        Inl e \<Rightarrow> ([], Inl e)
      | Inr u \<Rightarrow>
     (case setup_directories_out env of
        Inl e \<Rightarrow> ([], Inl e)
      | Inr conversation_path \<Rightarrow>
     (case setup_browser_profile_out env of
        Inl e \<Rightarrow> ([], Inl e)
      | Inr u \<Rightarrow>
     (case create_browser_out env of
        Inl e \<Rightarrow> ([], Inl e)
      | Inr u \<Rightarrow>
     (case browser_start_out env of
        Inl e \<Rightarrow> ([BrowserStart], Inl e)
      | Inr u \<Rightarrow>
     (case (if session_enabled request then restore_session_storage_out env else Inr ()) of
        Inl e \<Rightarrow> ([BrowserStart, RestoreSessionStorage], Inl e)
      | Inr u \<Rightarrow>
     (let started =
            BrowserStart # (if session_enabled request then [RestoreSessionStorage] else [])
      in
      case create_agent_out env of
        Inl e \<Rightarrow> (started @ [CreateAgent], Inl e)
      | Inr gif_path \<Rightarrow>
     (let guarded = finally_stop env (try_body request env);
          trace = started @ [CreateAgent] @ fst guarded
      in
      case snd guarded of
        Inl e \<Rightarrow> (trace, Inl e)
      | Inr h \<Rightarrow>
     (case handle_downloads_out env of
        Inl e \<Rightarrow> (trace @ [HandleDownloads], Inl e)
      | Inr downloaded_files \<Rightarrow>
          (trace @ [HandleDownloads],
           raise_from (aggregate h request gif_path downloaded_files conversation_path)))))))))))"

text \<open>An environment in which every call returns, except that building the agent raises.\<close>

definition env_agent_fails :: agent_env where
  "env_agent_fails =
     \<lparr> setup_llms_out = Inr (),
       setup_directories_out = Inr None,
       setup_browser_profile_out = Inr (),
       create_browser_out = Inr (),
       browser_start_out = Inr (),
       restore_session_storage_out = Inr (),
       create_agent_out = Inl (PyException ''Agent: invalid configuration''),
       agent_run_out = Inr history0,
       export_storage_state_out = Inr (),
       export_session_storage_out = Inr (),
       browser_stop_out = Inr (),
       handle_downloads_out = Inr [] \<rparr>"

text \<open>An environment in which the deadline cancels the body while the session storage
  is being restored.\<close>

definition env_cancelled_early :: agent_env where
  "env_cancelled_early =
     env_agent_fails\<lparr> restore_session_storage_out := Inl PyCancelledError,
                      create_agent_out := Inr None \<rparr>"

section \<open>Session storage: export (agent\_runner.py) and restoration (agent\_setup.py)\<close>

text \<open>
  A page has an origin and a session storage: key/value pairs of strings, each key
  once, in the order of \<open>sessionStorage.key(i)\<close>. \<open>sessionStorage.setItem\<close>
  replaces the value of a present key and appends an absent one.
\<close>

type_synonym storage = "(string \<times> string) list"

record page =
  page_origin :: string
  session_storage :: storage
  evaluate_raises :: "py_exn option"

















section \<open>result\_processing.py: download reconciliation\<close>



definition downloads_root :: "string list" where
  "downloads_root = [''home'', ''browseruser'', ''Downloads'']"

text \<open>\<open>p.relative_to(base)\<close> raises a ValueError when \<open>p\<close> is not below \<open>base\<close>.\<close>

definition relative_to :: "string list \<Rightarrow> string list \<Rightarrow> string list option" where
  "relative_to p base = (if prefix base p then Some (drop (length base) p) else None)"

text \<open>
  The file system as far as reconciliation touches it: the files of the target
  download directory (name and content; its sub-directories are not modelled) and the
  directories under \<open>/tmp\<close> with their entries in \<open>iterdir\<close> order.
\<close>

datatype node = File string | Dir

record dl_fs =
  target :: "string \<rightharpoonup> string"
  dirs :: "string \<rightharpoonup> (string \<times> node) list"

text \<open>
  The state of one run adds the number of clock readings taken, the list being
  returned, and a log of the moves made (destination name and content), kept to state
  properties of the run.
\<close>

record dl_state = dl_fs +
  ticks :: nat
  downloaded_files :: "string list"
  moved :: "(string \<times> string) list"












section \<open>Properties of the aggregator and of the response\<close>

lemma bind_exn_Inr: "bind_exn m f = Inr y \<longleftrightarrow> (\<exists>x. m = Inr x \<and> f x = Inr y)"
  by (cases m) (simp_all add: bind_exn_def)

lemma bind_exn_simps [simp]:
  "bind_exn (Inr x) f = f x" "bind_exn (Inl e) f = Inl e"
  by (simp_all add: bind_exn_def)

lemma map_of_dict_set: "map_of (dict_set d k v) = (map_of d)(k \<mapsto> v)"
  by (simp add: dict_set_def update_conv')

lemma distinct_dict_set: "distinct (map fst d) \<Longrightarrow> distinct (map fst (dict_set d k v))"
  by (simp add: dict_set_def distinct_update)

lemma keys_dict_set: "fst ` set (dict_set d k v) = insert k (fst ` set d)"
  by (simp add: dict_set_def dom_update)

lemma keys_within_Nil [simp]: "keys_within K []"
  by (simp add: keys_within_def)

lemma keys_within_dict_set [simp]: "keys_within K d \<Longrightarrow> k \<in> K \<Longrightarrow> keys_within K (dict_set d k v)"
  by (simp add: keys_within_def distinct_dict_set keys_dict_set)

lemma cost_keys_mem [simp]:
  "''cost'' \<in> cost_keys" "''cost_currency'' \<in> cost_keys" "''llm_calls'' \<in> cost_keys"
  by (simp_all add: cost_keys_def)

lemma usage_cost_shape: "keys_within cost_keys (fst (usage_cost u))"
  by (simp add: usage_cost_def keys_within_def cost_keys_def split: attr.splits sum.splits)

lemma usage_tokens_shape:
  "keys_within cost_keys cd \<Longrightarrow> keys_within cost_keys (usage_tokens u cd)"
  by (simp add: usage_tokens_def)

lemma usage_cost_shape': "usage_cost u = (cd, ex) \<Longrightarrow> keys_within cost_keys cd"
  using usage_cost_shape [of u] by simp

lemma cost_try_body_shape: "keys_within cost_keys (fst (cost_try_body h))"
  unfolding cost_try_body_def Let_def
  by (auto split: attr.splits option.splits prod.splits sum.splits
      simp: usage_tokens_shape dest: usage_cost_shape')

lemma cost_try_body_shape': "cost_try_body h = (cd, ex) \<Longrightarrow> keys_within cost_keys cd"
  using cost_try_body_shape [of h] by simp

lemma extract_cost_data_shape:
  assumes "extract_cost_data h request = Inr cd"
  shows "keys_within cost_keys cd"
proof (cases "calculate_cost request")
  case True
  with assms show ?thesis
    unfolding extract_cost_data_def Let_def
    by (auto split: prod.splits option.splits sum.splits
        dest: cost_try_body_shape' simp: bind_exn_Inr)
next
  case False
  with assms show ?thesis
    by (auto simp: extract_cost_data_def keys_within_def cost_keys_def)
qed

lemma extract_debug_data_shape:
  assumes "extract_debug_data h request = Inr dbg"
  shows "\<exists>v. dbg = [(''debug_data'', v)]"
  using assms unfolding extract_debug_data_def Let_def
  by (auto split: if_splits simp: bind_exn_Inr)

lemma map_of_fold_update:
  "map_of (fold (\<lambda>kv d. AList.update (fst kv) (snd kv) d) b a) = map_of a ++ map_of (rev b)"
proof (induction b arbitrary: a)
  case Nil
  then show ?case by simp
next
  case (Cons kv b)
  show ?case
    by (simp add: Cons.IH update_conv' map_add_def fun_eq_iff split: option.splits)
qed

lemma map_of_rev_distinct: "distinct (map fst xs) \<Longrightarrow> map_of (rev xs) = map_of xs"
proof (induction xs)
  case Nil
  then show ?case by simp
next
  case (Cons x xs)
  then have "fst x \<notin> fst ` set xs" by auto
  then have "map_of xs (fst x) = None" by (simp add: map_of_eq_None_iff)
  with Cons show ?case
    by (cases x) (auto simp: map_add_def fun_eq_iff split: option.splits)
qed

lemma map_of_dict_merge:
  "distinct (map fst b) \<Longrightarrow> map_of (dict_merge a b) = map_of a ++ map_of b"
  by (simp add: dict_merge_def map_of_fold_update map_of_rev_distinct)

lemma keys_within_lookup:
  "keys_within K d \<Longrightarrow> k \<notin> K \<Longrightarrow> map_of d k = None"
  by (auto simp: keys_within_def map_of_eq_None_iff)

text \<open>Looking a key up in the assembled report.\<close>

lemma map_of_assemble:
  assumes "keys_within cost_keys cd" and "dbg = [(''debug_data'', v)]"
  shows "map_of (assemble_final_result basic cd dbg dl conv) =
         ((map_of basic ++ map_of cd)(''debug_data'' \<mapsto> v,
            ''downloaded_files'' \<mapsto> PList (map PStr dl),
            ''conversation_path'' \<mapsto> opt_str conv))"
proof -
  have d: "distinct (map fst cd)" using assms(1) by (simp add: keys_within_def)
  show ?thesis
    unfolding assemble_final_result_def Let_def
    by (simp add: map_of_dict_set map_of_dict_merge d assms(2) fun_eq_iff map_add_def)
qed

lemma extract_basic_results_Inr:
  assumes "errors h = Inr raw" "final_result h = Inr fr" "is_done h = Inr dn"
    "is_successful h = Inr sc" "has_errors h = Inr he" "urls h = Inr us"
    "number_of_steps h = Inr n" "total_duration_seconds h = Inr dur"
  shows "\<exists>basic. extract_basic_results h request gif = Inr basic \<and>
     map_of basic =
       [''final_result'' \<mapsto> opt_str fr,
        ''is_done'' \<mapsto> PBool dn,
        ''is_successful'' \<mapsto> opt_bool sc,
        ''has_errors'' \<mapsto> PBool he,
        ''urls'' \<mapsto> PList (map PStr us),
        ''steps'' \<mapsto> PInt n,
        ''duration'' \<mapsto> PFloat dur,
        ''errors'' \<mapsto> PList (map PStr (truthy_errors raw)),
        ''openai_empty_json'' \<mapsto>
           PBool (truthy_errors raw \<noteq> [] \<and> llm_provider request = ''openai'' \<and>
                  list_ex is_empty_json_error (truthy_errors raw)),
        ''openai_rate_limit'' \<mapsto>
           PBool (truthy_errors raw \<noteq> [] \<and> llm_provider request = ''openai'' \<and>
                  list_ex is_rate_limit_error (truthy_errors raw)),
        ''judge_verdict'' \<mapsto> opt_str (extract_judge_verdict h)]
       ++ (case gif of
             Some g \<Rightarrow> if generate_gif request then [''gif_path'' \<mapsto> PStr g] else Map.empty
           | None \<Rightarrow> Map.empty)"
  unfolding extract_basic_results_def Let_def
  by (simp add: assms map_of_dict_set fun_eq_iff map_add_def split: option.splits)

lemma usage_cost_typed:
  "usage_cost u = (cd, None) \<Longrightarrow>
     cd = [] \<or> (\<exists>x. cd = [(''cost'', PFloat x), (''cost_currency'', PStr ''USD'')])"
  by (auto simp: usage_cost_def split: attr.splits sum.splits)

lemma usage_cost_raised: "usage_cost u = (cd, Some e) \<Longrightarrow> cd = []"
  by (auto simp: usage_cost_def split: attr.splits sum.splits)

lemma cost_try_body_typed:
  "cost_try_body h = (cd, None) \<Longrightarrow> cost_typed cd"
  unfolding cost_try_body_def Let_def
  by (auto split: attr.splits option.splits prod.splits sum.splits if_splits
      dest!: usage_cost_typed
      simp: cost_typed_def usage_tokens_def map_of_dict_set dict_has_def dict_get_def)

lemma cost_try_body_raised:
  "cost_try_body h = (cd, Some e) \<Longrightarrow>
     cost_typed (dict_set (dict_set cd ''cost'' PNone) ''llm_calls'' (PInt n))"
  unfolding cost_try_body_def Let_def
  by (auto split: attr.splits option.splits prod.splits sum.splits if_splits
      dest!: usage_cost_typed usage_cost_raised
      simp: cost_typed_def usage_tokens_def map_of_dict_set dict_has_def dict_get_def)

lemma extract_cost_data_typed:
  assumes "extract_cost_data h request = Inr cd"
  shows "cost_typed cd"
proof (cases "calculate_cost request")
  case True
  with assms show ?thesis
    unfolding extract_cost_data_def Let_def
    by (auto split: prod.splits option.splits sum.splits
        dest: cost_try_body_typed cost_try_body_raised simp: bind_exn_Inr)
next
  case False
  with assms show ?thesis
    by (auto simp: extract_cost_data_def cost_typed_def)
qed

lemma v_strs_map_PStr [simp]: "v_strs (map PStr xs) = Inr xs"
  by (induction xs) simp_all

lemma extract_debug_data_typed:
  assumes "extract_debug_data h request = Inr dbg"
  shows "dbg = [(''debug_data'', PNone)] \<or> (\<exists>d. dbg = [(''debug_data'', PDict d)])"
  using assms unfolding extract_debug_data_def Let_def
  by (auto split: if_splits simp: bind_exn_Inr)

lemma report_lookups:
  assumes q: "errors h = Inr raw" "final_result h = Inr fr" "is_done h = Inr dn"
    "is_successful h = Inr sc" "has_errors h = Inr he" "urls h = Inr us"
    "number_of_steps h = Inr n" "total_duration_seconds h = Inr dur"
    and c: "extract_cost_data h request = Inr cd"
    and d: "extract_debug_data h request = Inr [(''debug_data'', v)]"
  shows "\<exists>report. aggregate h request gif dl conv = Inr report \<and>
     map_of report ''final_result'' = Some (opt_str fr) \<and>
     map_of report ''is_done'' = Some (PBool dn) \<and>
     map_of report ''is_successful'' = Some (opt_bool sc) \<and>
     map_of report ''has_errors'' = Some (PBool he) \<and>
     map_of report ''urls'' = Some (PList (map PStr us)) \<and>
     map_of report ''steps'' = Some (PInt n) \<and>
     map_of report ''duration'' = Some (PFloat dur) \<and>
     map_of report ''errors'' = Some (PList (map PStr (truthy_errors raw))) \<and>
     map_of report ''openai_empty_json'' =
        Some (PBool (truthy_errors raw \<noteq> [] \<and> llm_provider request = ''openai'' \<and>
                  list_ex is_empty_json_error (truthy_errors raw))) \<and>
     map_of report ''openai_rate_limit'' =
        Some (PBool (truthy_errors raw \<noteq> [] \<and> llm_provider request = ''openai'' \<and>
                  list_ex is_rate_limit_error (truthy_errors raw))) \<and>
     map_of report ''judge_verdict'' = Some (opt_str (extract_judge_verdict h)) \<and>
     map_of report ''gif_path'' =
        (case gif of Some g \<Rightarrow> if generate_gif request then Some (PStr g) else None
         | None \<Rightarrow> None) \<and>
     map_of report ''cost'' = map_of cd ''cost'' \<and>
     map_of report ''cost_currency'' = map_of cd ''cost_currency'' \<and>
     map_of report ''llm_calls'' = map_of cd ''llm_calls'' \<and>
     map_of report ''debug_data'' = Some v \<and>
     map_of report ''downloaded_files'' = Some (PList (map PStr dl)) \<and>
     map_of report ''conversation_path'' = Some (opt_str conv)"
proof -
  obtain basic where b: "extract_basic_results h request gif = Inr basic"
    and mb: "map_of basic =
       [''final_result'' \<mapsto> opt_str fr,
        ''is_done'' \<mapsto> PBool dn,
        ''is_successful'' \<mapsto> opt_bool sc,
        ''has_errors'' \<mapsto> PBool he,
        ''urls'' \<mapsto> PList (map PStr us),
        ''steps'' \<mapsto> PInt n,
        ''duration'' \<mapsto> PFloat dur,
        ''errors'' \<mapsto> PList (map PStr (truthy_errors raw)),
        ''openai_empty_json'' \<mapsto>
           PBool (truthy_errors raw \<noteq> [] \<and> llm_provider request = ''openai'' \<and>
                  list_ex is_empty_json_error (truthy_errors raw)),
        ''openai_rate_limit'' \<mapsto>
           PBool (truthy_errors raw \<noteq> [] \<and> llm_provider request = ''openai'' \<and>
                  list_ex is_rate_limit_error (truthy_errors raw)),
        ''judge_verdict'' \<mapsto> opt_str (extract_judge_verdict h)]
       ++ (case gif of
             Some g \<Rightarrow> if generate_gif request then [''gif_path'' \<mapsto> PStr g] else Map.empty
           | None \<Rightarrow> Map.empty)"
    using extract_basic_results_Inr [OF q, of request gif] by blast
  let ?report = "assemble_final_result basic cd [(''debug_data'', v)] dl conv"
  have kw: "keys_within cost_keys cd" using c by (rule extract_cost_data_shape)
  have agg: "aggregate h request gif dl conv = Inr ?report"
    by (simp add: aggregate_def b c d)
  have m: "map_of ?report =
         ((map_of basic ++ map_of cd)(''debug_data'' \<mapsto> v,
            ''downloaded_files'' \<mapsto> PList (map PStr dl),
            ''conversation_path'' \<mapsto> opt_str conv))"
    using kw by (rule map_of_assemble) simp
  have nk: "map_of cd k = None" if "k \<notin> cost_keys" for k
    using kw that by (rule keys_within_lookup)
  have ck: "k = ''cost'' \<or> k = ''cost_currency'' \<or> k = ''llm_calls''" if "map_of cd k = Some x" for k x
    using nk [of k] that by (auto simp: cost_keys_def)
  show ?thesis
    apply (rule exI [of _ ?report])
    apply (simp only: agg m mb)
    apply (intro conjI)
                      apply (simp_all add: map_add_def nk cost_keys_def split: option.splits)
    done
qed

lemma last_map_PStr: "xs \<noteq> [] \<Longrightarrow> last (map PStr xs) = PStr (last xs)"
  by (simp add: last_map)

lemma completed_response:
  assumes q: "errors h = Inr raw" "final_result h = Inr fr" "is_done h = Inr dn"
    "is_successful h = Inr sc" "has_errors h = Inr he" "urls h = Inr us"
    "number_of_steps h = Inr n" "total_duration_seconds h = Inr dur"
    and c: "extract_cost_data h request = Inr cd"
    and d: "extract_debug_data h request = Inr [(''debug_data'', v)]"
  shows "\<exists>report resp. aggregate h request gif dl conv = Inr report \<and>
     respond_completed tid t report = Inr resp \<and>
     r_task_id resp = tid \<and>
     r_success resp =
       (case sc of Some b \<Rightarrow> b
        | None \<Rightarrow> dn \<or> ((case fr of Some s \<Rightarrow> s \<noteq> [] | None \<Rightarrow> False) \<and> \<not> he)) \<and>
     r_result resp = fr \<and>
     r_final_url resp = (if us = [] then None else Some (last us)) \<and>
     r_urls_visited resp = us \<and>
     r_steps_taken resp = n \<and>
     r_execution_time resp = t \<and>
     r_gif_path resp =
       (case gif of Some g \<Rightarrow> if generate_gif request then Some g else None | None \<Rightarrow> None) \<and>
     r_error resp =
       (if truthy_errors raw = [] then None
        else if llm_provider request = ''openai'' \<and> list_ex is_rate_limit_error (truthy_errors raw)
        then Some (format_openai_error_message (str_join ''; '' (truthy_errors raw)) ''rate_limit'')
        else if llm_provider request = ''openai'' \<and> list_ex is_empty_json_error (truthy_errors raw)
        then Some (format_openai_error_message (str_join ''; '' (truthy_errors raw)) ''empty_json'')
        else Some (str_join ''; '' (truthy_errors raw))) \<and>
     r_judge_verdict resp = extract_judge_verdict h \<and>
     r_cost resp = (case map_of cd ''cost'' of Some (PFloat x) \<Rightarrow> Some x | _ \<Rightarrow> None) \<and>
     r_cost_currency resp = ''USD'' \<and>
     r_llm_calls resp = (case map_of cd ''llm_calls'' of Some (PInt i) \<Rightarrow> i | _ \<Rightarrow> 0) \<and>
     r_debug_data resp = (case v of PDict dd \<Rightarrow> Some dd | _ \<Rightarrow> None) \<and>
     r_conversation_path resp = conv \<and>
     r_downloaded_files resp = dl"
proof -
  obtain report where agg: "aggregate h request gif dl conv = Inr report"
    and l: "map_of report ''final_result'' = Some (opt_str fr)"
     "map_of report ''is_done'' = Some (PBool dn)"
     "map_of report ''is_successful'' = Some (opt_bool sc)"
     "map_of report ''has_errors'' = Some (PBool he)"
     "map_of report ''urls'' = Some (PList (map PStr us))"
     "map_of report ''steps'' = Some (PInt n)"
     "map_of report ''errors'' = Some (PList (map PStr (truthy_errors raw)))"
     "map_of report ''openai_empty_json'' =
        Some (PBool (truthy_errors raw \<noteq> [] \<and> llm_provider request = ''openai'' \<and>
                  list_ex is_empty_json_error (truthy_errors raw)))"
     "map_of report ''openai_rate_limit'' =
        Some (PBool (truthy_errors raw \<noteq> [] \<and> llm_provider request = ''openai'' \<and>
                  list_ex is_rate_limit_error (truthy_errors raw)))"
     "map_of report ''judge_verdict'' = Some (opt_str (extract_judge_verdict h))"
     "map_of report ''gif_path'' =
        (case gif of Some g \<Rightarrow> if generate_gif request then Some (PStr g) else None
         | None \<Rightarrow> None)"
     "map_of report ''cost'' = map_of cd ''cost''"
     "map_of report ''cost_currency'' = map_of cd ''cost_currency''"
     "map_of report ''llm_calls'' = map_of cd ''llm_calls''"
     "map_of report ''debug_data'' = Some v"
     "map_of report ''downloaded_files'' = Some (PList (map PStr dl))"
     "map_of report ''conversation_path'' = Some (opt_str conv)"
    using report_lookups [OF q c d, of gif dl conv] by blast
  have ct: "cost_typed cd" using c by (rule extract_cost_data_typed)
  have vt: "v = PNone \<or> (\<exists>dd. v = PDict dd)"
    using extract_debug_data_typed [OF d] by simp
  have succ: "v_bool (determine_success report) =
     Inr (case sc of Some b \<Rightarrow> b
        | None \<Rightarrow> dn \<or> ((case fr of Some s \<Rightarrow> s \<noteq> [] | None \<Rightarrow> False) \<and> \<not> he))"
    by (auto simp: determine_success_def dict_get_def dict_get_or_def l opt_bool_def opt_str_def
        py_or_def Let_def split: option.splits)
  have err: "response_error report = Inr (opt_str
       (if truthy_errors raw = [] then None
        else if llm_provider request = ''openai'' \<and> list_ex is_rate_limit_error (truthy_errors raw)
        then Some (format_openai_error_message (str_join ''; '' (truthy_errors raw)) ''rate_limit'')
        else if llm_provider request = ''openai'' \<and> list_ex is_empty_json_error (truthy_errors raw)
        then Some (format_openai_error_message (str_join ''; '' (truthy_errors raw)) ''empty_json'')
        else Some (str_join ''; '' (truthy_errors raw))))"
    by (simp add: response_error_def dict_get_def dict_get_or_def l opt_str_def Let_def)
  have fu: "(if truthy (dict_get report ''urls'')
                then py_last (dict_get_or report ''urls'' (PList [PNone]))
                else Inr PNone) = Inr (opt_str (if us = [] then None else Some (last us)))"
    by (simp add: dict_get_def dict_get_or_def l opt_str_def last_map_PStr)
  have vo: "v_opt_str (opt_str x) = Inr x" for x
    by (cases x) (simp_all add: opt_str_def)
  have cost: "v_opt_float (dict_get report ''cost'') =
      Inr (case map_of cd ''cost'' of Some (PFloat x) \<Rightarrow> Some x | _ \<Rightarrow> None)"
    using ct by (auto simp: cost_typed_def dict_get_def l)
  have cur: "v_str (dict_get_or report ''cost_currency'' (PStr ''USD'')) = Inr ''USD''"
    using ct by (auto simp: cost_typed_def dict_get_or_def l)
  have calls: "v_int (dict_get_or report ''llm_calls'' (PInt 0)) =
      Inr (case map_of cd ''llm_calls'' of Some (PInt i) \<Rightarrow> i | _ \<Rightarrow> 0)"
    using ct by (auto simp: cost_typed_def dict_get_or_def l)
  have dbg: "v_opt_dict (dict_get report ''debug_data'') =
      Inr (case v of PDict dd \<Rightarrow> Some dd | _ \<Rightarrow> None)"
    using vt by (auto simp: dict_get_def l)
  have gp: "v_opt_str (dict_get report ''gif_path'') =
      Inr (case gif of Some g \<Rightarrow> if generate_gif request then Some g else None | None \<Rightarrow> None)"
    by (simp add: dict_get_def l split: option.splits)
  show ?thesis
    apply (rule exI [of _ report])
    apply (simp only: agg respond_completed_def Let_def succ err fu vo cost cur calls dbg gp
        bind_exn_simps)
    apply (simp add: dict_get_def dict_get_or_def l vo)
    done
qed

lemma aggregate_Inr:
  assumes "aggregate h request gif dl conv = Inr report"
  shows "\<exists>raw fr dn sc he us n dur cd v.
     errors h = Inr raw \<and> final_result h = Inr fr \<and> is_done h = Inr dn \<and>
     is_successful h = Inr sc \<and> has_errors h = Inr he \<and> urls h = Inr us \<and>
     number_of_steps h = Inr n \<and> total_duration_seconds h = Inr dur \<and>
     extract_cost_data h request = Inr cd \<and>
     extract_debug_data h request = Inr [(''debug_data'', v)]"
proof -
  from assms obtain basic cd dbg where
    b: "extract_basic_results h request gif = Inr basic"
    and c: "extract_cost_data h request = Inr cd"
    and d: "extract_debug_data h request = Inr dbg"
    by (auto simp: aggregate_def bind_exn_Inr)
  from d obtain v where "dbg = [(''debug_data'', v)]"
    using extract_debug_data_shape by blast
  with b c d show ?thesis
    unfolding extract_basic_results_def Let_def
    by (auto simp: bind_exn_Inr)
qed

text \<open>
  Claim C10. For a completed execution (the awaited body returned the aggregated report
  and the task was not cancelled) the response is the one built from the report, and its
  success flag is the definite boolean of \<open>history.is_successful()\<close> when there is
  one; when that query returns \<open>None\<close> the flag is true exactly if \<open>is_done\<close> is
  true, or a non-empty final result exists and \<open>has_errors\<close> is false.
\<close>

theorem C10_success_fallback:
  assumes agg: "aggregate h request gif dl conv = Inr report"
    and w: "wait_outcome env = Inr report"
    and nc: "\<not> bt_cancelled (heap st a)"
  shows "\<exists>resp. finish_task request env tid a st = Inr resp \<and>
     r_success resp =
       (case is_successful h of
          Inr (Some b) \<Rightarrow> b
        | _ \<Rightarrow> is_done h = Inr True \<or>
              ((\<exists>s. final_result h = Inr (Some s) \<and> s \<noteq> []) \<and> has_errors h = Inr False))"
proof -
  from aggregate_Inr [OF agg] obtain raw fr dn sc he us n dur cd v where
    q: "errors h = Inr raw" "final_result h = Inr fr" "is_done h = Inr dn"
    "is_successful h = Inr sc" "has_errors h = Inr he" "urls h = Inr us"
    "number_of_steps h = Inr n" "total_duration_seconds h = Inr dur"
    and c: "extract_cost_data h request = Inr cd"
    and d: "extract_debug_data h request = Inr [(''debug_data'', v)]"
    by blast
  from completed_response [OF q c d, of gif dl conv tid "clock env 1 - clock env 0"] agg
  obtain resp where
    r: "respond_completed tid (clock env 1 - clock env 0) report = Inr resp"
    and s: "r_success resp =
       (case sc of Some b \<Rightarrow> b
        | None \<Rightarrow> dn \<or> ((case fr of Some s \<Rightarrow> s \<noteq> [] | None \<Rightarrow> False) \<and> \<not> he))"
    by auto
  have "finish_task request env tid a st = Inr resp"
    using r by (simp add: finish_task_def w nc)
  moreover have "r_success resp =
       (case is_successful h of
          Inr (Some b) \<Rightarrow> b
        | _ \<Rightarrow> is_done h = Inr True \<or>
              ((\<exists>s. final_result h = Inr (Some s) \<and> s \<noteq> []) \<and> has_errors h = Inr False))"
    by (simp add: s q split: option.splits)
  ultimately show ?thesis by blast
qed

lemma aggregate0: "aggregate history0 request0 None [] None = Inr report0"
  by (simp add: aggregate_def extract_basic_results_def extract_cost_data_def
      extract_debug_data_def assemble_final_result_def history0_def request0_def report0_def
      cost_try_body_def usage_cost_def usage_tokens_def extract_judge_verdict_def
      dict_set_def dict_merge_def dict_has_def dict_get_def opt_str_def opt_bool_def
      is_empty_json_error_def is_rate_limit_error_def empty_json_indicators_def
      rate_limit_indicators_def str_lower_def char_lower_def Let_def)

theorem C10_success_fallback_witness:
  "aggregate history0 request0 None [] None = Inr report0 \<and>
   wait_outcome env0 = Inr report0 \<and>
   \<not> bt_cancelled (heap initial_state 0) \<and>
   (\<exists>resp. finish_task request0 env0 ''t1'' 0 initial_state = Inr resp \<and> r_success resp =
      (case is_successful history0 of
          Inr (Some b) \<Rightarrow> b
        | _ \<Rightarrow> is_done history0 = Inr True \<or>
              ((\<exists>s. final_result history0 = Inr (Some s) \<and> s \<noteq> []) \<and>
               has_errors history0 = Inr False)))"
proof -
  have w: "wait_outcome env0 = Inr report0" by (simp add: env0_def)
  have nc: "\<not> bt_cancelled (heap initial_state 0)" by (simp add: initial_state_def BrowserTask_def)
  show ?thesis
    using C10_success_fallback [OF aggregate0 w nc, of "''t1''"] aggregate0 w nc
    by simp
qed

lemma str_contains_map: "str_contains sub s \<Longrightarrow> str_contains (map f sub) (map f s)"
proof (induction s)
  case Nil
  then show ?case by simp
next
  case (Cons c cs)
  from Cons.prems have "prefix sub (c # cs) \<or> str_contains sub cs" by simp
  then show ?case
  proof
    assume "prefix sub (c # cs)"
    then have "prefix (map f sub) (map f (c # cs))" by (rule map_mono_prefix)
    then show ?thesis by simp
  next
    assume "str_contains sub cs"
    then show ?thesis using Cons.IH by simp
  qed
qed

lemma str_contains_prefix: "prefix sub s \<Longrightarrow> str_contains sub s"
  by (cases s) simp_all

lemma str_contains_self [simp]: "str_contains s s"
  by (simp add: str_contains_prefix)

lemma str_contains_append_left: "str_contains sub s \<Longrightarrow> str_contains sub (a @ s)"
  by (induction a) simp_all

lemma str_contains_append_right: "str_contains sub s \<Longrightarrow> str_contains sub (s @ b)"
proof (induction s)
  case Nil
  then show ?case by (simp add: str_contains_prefix)
next
  case (Cons c cs)
  from Cons.prems have "prefix sub (c # cs) \<or> str_contains sub cs" by simp
  then show ?case
  proof
    assume "prefix sub (c # cs)"
    then have "prefix sub ((c # cs) @ b)" by (rule prefix_prefix)
    then show ?thesis by simp
  next
    assume "str_contains sub cs"
    then show ?thesis using Cons.IH by simp
  qed
qed

lemma str_contains_join:
  "e \<in> set es \<Longrightarrow> str_contains e (str_join sep es)"
proof (induction sep es rule: str_join.induct)
  case (1 sep)
  then show ?case by simp
next
  case (2 sep x)
  then show ?case by simp
next
  case (3 sep x y ys)
  show ?case
  proof (cases "e = x")
    case True
    then show ?thesis by (simp add: str_contains_append_right)
  next
    case False
    with 3 have "str_contains e (str_join sep (y # ys))" by simp
    then have "str_contains e (x @ sep @ str_join sep (y # ys))"
      by (simp add: str_contains_append_left)
    then show ?thesis by simp
  qed
qed

lemma truthy_errors_mem: "Some e \<in> set raw \<Longrightarrow> e \<noteq> [] \<Longrightarrow> e \<in> set (truthy_errors raw)"
  by (induction raw rule: truthy_errors.induct) auto

lemma rate_limit_marker:
  assumes "str_contains ''rate_limit_exceeded'' e"
  shows "is_rate_limit_error e"
proof -
  have ne: "e \<noteq> []" using assms by auto
  have "str_contains (map char_lower ''rate_limit_exceeded'') (map char_lower e)"
    using assms by (rule str_contains_map)
  then have "str_contains ''rate_limit_exceeded'' (str_lower e)"
    by (simp add: str_lower_def char_lower_def)
  then show ?thesis
    by (simp add: is_rate_limit_error_def ne rate_limit_indicators_def)
qed

lemma format_rate_limit_prefix:
  "prefix rate_limit_base_msg (format_openai_error_message original ''rate_limit'')"
  by (simp add: format_openai_error_message_def Let_def)

text \<open>
  Claim C7. Let an error string of the history contain \<open>rate_limit_exceeded\<close>, and
  let the execution complete. The string is kept in the report's raw error list and
  occurs in the joined error text. For provider \<open>openai\<close> the report is classified as
  a rate-limit error and the response's error field is the rate-limit guidance text
  (it starts with the rate-limit message). For any other provider both classification
  flags are false and the response's error field is the joined raw error text itself.
\<close>

theorem C7_rate_limit_classification:
  assumes agg: "aggregate h request gif dl conv = Inr report"
    and w: "wait_outcome env = Inr report"
    and nc: "\<not> bt_cancelled (heap st a)"
    and e: "errors h = Inr raw" "Some err \<in> set raw"
    and m: "str_contains ''rate_limit_exceeded'' err"
  shows "\<exists>resp joined.
     finish_task request env tid a st = Inr resp \<and>
     joined = str_join ''; '' (truthy_errors raw) \<and>
     str_contains err joined \<and>
     dict_get report ''errors'' = PList (map PStr (truthy_errors raw)) \<and>
     err \<in> set (truthy_errors raw) \<and>
     (if llm_provider request = ''openai''
      then dict_get report ''openai_rate_limit'' = PBool True \<and>
           r_error resp = Some (format_openai_error_message joined ''rate_limit'') \<and>
           prefix rate_limit_base_msg (format_openai_error_message joined ''rate_limit'')
      else dict_get report ''openai_rate_limit'' = PBool False \<and>
           dict_get report ''openai_empty_json'' = PBool False \<and>
           r_error resp = Some joined)"
proof -
  from aggregate_Inr [OF agg] e(1) obtain fr dn sc he us n dur cd v where
    q: "errors h = Inr raw" "final_result h = Inr fr" "is_done h = Inr dn"
    "is_successful h = Inr sc" "has_errors h = Inr he" "urls h = Inr us"
    "number_of_steps h = Inr n" "total_duration_seconds h = Inr dur"
    and c: "extract_cost_data h request = Inr cd"
    and d: "extract_debug_data h request = Inr [(''debug_data'', v)]"
    by auto
  have ne: "err \<noteq> []" using m by auto
  have mem: "err \<in> set (truthy_errors raw)" using e(2) ne by (rule truthy_errors_mem)
  then have nonempty: "truthy_errors raw \<noteq> []" by auto
  have rl: "list_ex is_rate_limit_error (truthy_errors raw)"
    using mem rate_limit_marker [OF m] by (auto simp: list_ex_iff)
  from report_lookups [OF q c d, of gif dl conv] agg
  have l: "map_of report ''errors'' = Some (PList (map PStr (truthy_errors raw)))"
     "map_of report ''openai_empty_json'' =
        Some (PBool (truthy_errors raw \<noteq> [] \<and> llm_provider request = ''openai'' \<and>
                  list_ex is_empty_json_error (truthy_errors raw)))"
     "map_of report ''openai_rate_limit'' =
        Some (PBool (truthy_errors raw \<noteq> [] \<and> llm_provider request = ''openai'' \<and>
                  list_ex is_rate_limit_error (truthy_errors raw)))"
    by auto
  from completed_response [OF q c d, of gif dl conv tid "clock env 1 - clock env 0"] agg
  obtain resp where
    r: "respond_completed tid (clock env 1 - clock env 0) report = Inr resp"
    and er: "r_error resp =
       (if truthy_errors raw = [] then None
        else if llm_provider request = ''openai'' \<and> list_ex is_rate_limit_error (truthy_errors raw)
        then Some (format_openai_error_message (str_join ''; '' (truthy_errors raw)) ''rate_limit'')
        else if llm_provider request = ''openai'' \<and> list_ex is_empty_json_error (truthy_errors raw)
        then Some (format_openai_error_message (str_join ''; '' (truthy_errors raw)) ''empty_json'')
        else Some (str_join ''; '' (truthy_errors raw)))"
    by auto
  have f: "finish_task request env tid a st = Inr resp"
    using r by (simp add: finish_task_def w nc)
  have j: "str_contains err (str_join ''; '' (truthy_errors raw))"
    using mem by (rule str_contains_join)
  show ?thesis
    apply (rule exI [of _ resp])
    apply (rule exI [of _ "str_join ''; '' (truthy_errors raw)"])
    apply (simp add: f j mem er nonempty rl dict_get_def l format_rate_limit_prefix)
    done
qed


theorem C7_rate_limit_classification_witness:
  "aggregate history0 request0 None [] None = Inr report0 \<and>
   wait_outcome env0 = Inr report0 \<and>
   \<not> bt_cancelled (heap initial_state 0) \<and>
   errors history0 = Inr [None, Some ''Error code: 429 rate_limit_exceeded''] \<and>
   str_contains ''rate_limit_exceeded'' ''Error code: 429 rate_limit_exceeded'' \<and>
   llm_provider request0 = ''openai'' \<and>
   (\<exists>resp. finish_task request0 env0 ''t1'' 0 initial_state = Inr resp \<and>
      dict_get report0 ''openai_rate_limit'' = PBool True \<and>
      r_error resp =
        Some (format_openai_error_message ''Error code: 429 rate_limit_exceeded'' ''rate_limit''))"
proof -
  have w: "wait_outcome env0 = Inr report0" by (simp add: env0_def)
  have nc: "\<not> bt_cancelled (heap initial_state 0)" by (simp add: initial_state_def BrowserTask_def)
  have e1: "errors history0 = Inr [None, Some ''Error code: 429 rate_limit_exceeded'']"
    by (simp add: history0_def)
  have e2: "Some ''Error code: 429 rate_limit_exceeded''
      \<in> set [None, Some ''Error code: 429 rate_limit_exceeded'']"
    by simp
  have m: "str_contains ''rate_limit_exceeded'' ''Error code: 429 rate_limit_exceeded''"
    by simp
  have p: "llm_provider request0 = ''openai''" by (simp add: request0_def)
  show ?thesis
    using C7_rate_limit_classification [OF aggregate0 w nc e1 e2 m, of "''t1''"] aggregate0 w nc e1 m p
    by auto
qed

lemma extract_debug_data_perf:
  assumes "extract_debug_data h request = Inr [(''debug_data'', v)]"
    and "number_of_steps h = Inr n"
  shows "if debug_mode request
         then \<exists>bundle perf. v = PDict bundle \<and> dict_get bundle ''performance'' = PDict perf \<and>
                dict_get perf ''steps'' = PInt n
         else v = PNone"
  using assms unfolding extract_debug_data_def Let_def
  by (auto simp: bind_exn_Inr dict_get_def map_of_dict_set)

text \<open>
  Claim C9. For a completed execution: with \<open>debug_mode = False\<close> the debug bundle of
  the report is \<open>None\<close> (no bundle at all, not an empty one) and so is the response's;
  with \<open>debug_mode = True\<close> report and response carry a bundle whose
  \<open>performance.steps\<close> equals the step count they report.
\<close>

theorem C9_debug_bundle:
  assumes agg: "aggregate h request gif dl conv = Inr report"
    and w: "wait_outcome env = Inr report"
    and nc: "\<not> bt_cancelled (heap st a)"
  shows "\<exists>resp. finish_task request env tid a st = Inr resp \<and>
     (if debug_mode request
      then \<exists>bundle perf.
             dict_get report ''debug_data'' = PDict bundle \<and>
             r_debug_data resp = Some bundle \<and>
             dict_get bundle ''performance'' = PDict perf \<and>
             dict_get perf ''steps'' = dict_get report ''steps'' \<and>
             dict_get perf ''steps'' = PInt (r_steps_taken resp)
      else dict_get report ''debug_data'' = PNone \<and> r_debug_data resp = None)"
proof -
  from aggregate_Inr [OF agg] obtain raw fr dn sc he us n dur cd v where
    q: "errors h = Inr raw" "final_result h = Inr fr" "is_done h = Inr dn"
    "is_successful h = Inr sc" "has_errors h = Inr he" "urls h = Inr us"
    "number_of_steps h = Inr n" "total_duration_seconds h = Inr dur"
    and c: "extract_cost_data h request = Inr cd"
    and d: "extract_debug_data h request = Inr [(''debug_data'', v)]"
    by blast
  from report_lookups [OF q c d, of gif dl conv] agg
  have l: "map_of report ''steps'' = Some (PInt n)" "map_of report ''debug_data'' = Some v"
    by auto
  from completed_response [OF q c d, of gif dl conv tid "clock env 1 - clock env 0"] agg
  obtain resp where
    r: "respond_completed tid (clock env 1 - clock env 0) report = Inr resp"
    and st: "r_steps_taken resp = n"
    and dd: "r_debug_data resp = (case v of PDict dd \<Rightarrow> Some dd | _ \<Rightarrow> None)"
    by auto
  have f: "finish_task request env tid a st = Inr resp"
    using r by (simp add: finish_task_def w nc)
  show ?thesis
    using extract_debug_data_perf [OF d q(7)]
    by (auto simp: f dict_get_def l st dd split: if_splits)
qed

theorem C9_debug_bundle_witness:
  "aggregate history0 request0 None [] None = Inr report0 \<and>
   wait_outcome env0 = Inr report0 \<and>
   \<not> bt_cancelled (heap initial_state 0) \<and>
   debug_mode request0 \<and>
   (\<exists>resp bundle perf. finish_task request0 env0 ''t1'' 0 initial_state = Inr resp \<and>
      r_debug_data resp = Some bundle \<and>
      dict_get bundle ''performance'' = PDict perf \<and>
      dict_get perf ''steps'' = PInt (r_steps_taken resp))"
proof -
  have w: "wait_outcome env0 = Inr report0" by (simp add: env0_def)
  have nc: "\<not> bt_cancelled (heap initial_state 0)" by (simp add: initial_state_def BrowserTask_def)
  have p: "debug_mode request0" by (simp add: request0_def)
  show ?thesis
    using C9_debug_bundle [OF aggregate0 w nc, of "''t1''"] aggregate0 w nc p
    by auto
qed

lemma extract_cost_data_total:
  assumes "number_of_steps h = Inr n"
  shows "\<exists>cd. extract_cost_data h request = Inr cd"
  unfolding extract_cost_data_def Let_def
  by (auto simp: assms split: prod.splits option.splits)

lemma extract_debug_data_total:
  assumes "total_duration_seconds h = Inr dur" "number_of_steps h = Inr n"
    "urls h = Inr us" "has_errors h = Inr he"
  shows "\<exists>v. extract_debug_data h request = Inr [(''debug_data'', v)]"
  unfolding extract_debug_data_def Let_def
  by (simp add: assms)





text \<open>
  Claim C3. Let the judge-verdict query raise and the eight plain queries of the history
  return. Then the aggregator returns a report whose \<open>judge_verdict\<close> is \<open>None\<close> and
  whose other fields are populated as usual: the completion flags, URLs, step count,
  duration and errors are the history's answers, the cost entries are those of
  \<open>extract_cost_data\<close>, the debug entry is that of \<open>extract_debug_data\<close>, downloads
  and conversation path are the caller's; it is the very report of a history without a
  verdict. Moreover no optional sub-extraction (verdict, usage, extracted content, model
  thoughts), whether missing, raising or returning, makes the aggregator raise.
\<close>

theorem C3_judge_failure_contained:
  assumes j: "judgement h = Attr (Inl e)"
    and q: "errors h = Inr raw" "final_result h = Inr fr" "is_done h = Inr dn"
    "is_successful h = Inr sc" "has_errors h = Inr he" "urls h = Inr us"
    "number_of_steps h = Inr n" "total_duration_seconds h = Inr dur"
  shows "\<exists>report cd dbg.
     aggregate h request gif dl conv = Inr report \<and>
     extract_cost_data h request = Inr cd \<and>
     extract_debug_data h request = Inr [(''debug_data'', dbg)] \<and>
     dict_get report ''judge_verdict'' = PNone \<and>
     dict_get report ''final_result'' = opt_str fr \<and>
     dict_get report ''is_done'' = PBool dn \<and>
     dict_get report ''is_successful'' = opt_bool sc \<and>
     dict_get report ''has_errors'' = PBool he \<and>
     dict_get report ''urls'' = PList (map PStr us) \<and>
     dict_get report ''steps'' = PInt n \<and>
     dict_get report ''duration'' = PFloat dur \<and>
     dict_get report ''errors'' = PList (map PStr (truthy_errors raw)) \<and>
     dict_get report ''cost'' = dict_get cd ''cost'' \<and>
     dict_get report ''cost_currency'' = dict_get cd ''cost_currency'' \<and>
     dict_get report ''llm_calls'' = dict_get cd ''llm_calls'' \<and>
     dict_get report ''debug_data'' = dbg \<and>
     dict_get report ''downloaded_files'' = PList (map PStr dl) \<and>
     dict_get report ''conversation_path'' = opt_str conv \<and>
     aggregate (h\<lparr>judgement := NoAttr\<rparr>) request gif dl conv = Inr report \<and>
     (\<forall>jd us ec mt. \<exists>r.
        aggregate (h\<lparr>judgement := jd, usage := us, extracted_content := ec,
                     model_thoughts := mt\<rparr>) request gif dl conv = Inr r)"
proof -
  obtain cd where c: "extract_cost_data h request = Inr cd"
    using extract_cost_data_total [OF q(7)] by blast
  obtain v where d: "extract_debug_data h request = Inr [(''debug_data'', v)]"
    using extract_debug_data_total [OF q(8) q(7) q(6) q(5)] by blast
  from report_lookups [OF q c d, of gif dl conv]
  obtain report where agg: "aggregate h request gif dl conv = Inr report"
    and l: "map_of report ''final_result'' = Some (opt_str fr)"
     "map_of report ''is_done'' = Some (PBool dn)"
     "map_of report ''is_successful'' = Some (opt_bool sc)"
     "map_of report ''has_errors'' = Some (PBool he)"
     "map_of report ''urls'' = Some (PList (map PStr us))"
     "map_of report ''steps'' = Some (PInt n)"
     "map_of report ''duration'' = Some (PFloat dur)"
     "map_of report ''errors'' = Some (PList (map PStr (truthy_errors raw)))"
     "map_of report ''judge_verdict'' = Some (opt_str (extract_judge_verdict h))"
     "map_of report ''cost'' = map_of cd ''cost''"
     "map_of report ''cost_currency'' = map_of cd ''cost_currency''"
     "map_of report ''llm_calls'' = map_of cd ''llm_calls''"
     "map_of report ''debug_data'' = Some v"
     "map_of report ''downloaded_files'' = Some (PList (map PStr dl))"
     "map_of report ''conversation_path'' = Some (opt_str conv)"
    by blast
  have jv: "extract_judge_verdict h = None" by (simp add: extract_judge_verdict_def j)
  have same: "aggregate (h\<lparr>judgement := NoAttr\<rparr>) request gif dl conv
      = aggregate h request gif dl conv"
  proof -
    let ?h = "h\<lparr>judgement := NoAttr\<rparr>"
    have f: "errors ?h = errors h" "final_result ?h = final_result h" "is_done ?h = is_done h"
      "is_successful ?h = is_successful h" "has_errors ?h = has_errors h" "urls ?h = urls h"
      "number_of_steps ?h = number_of_steps h"
      "total_duration_seconds ?h = total_duration_seconds h"
      "usage ?h = usage h" "extracted_content ?h = extracted_content h"
      "model_thoughts ?h = model_thoughts h"
      by simp_all
    have jv': "extract_judge_verdict ?h = extract_judge_verdict h"
      by (simp add: extract_judge_verdict_def j)
    have b: "extract_basic_results ?h request gif = extract_basic_results h request gif"
      unfolding extract_basic_results_def f jv' by (rule refl)
    have c: "extract_cost_data ?h request = extract_cost_data h request"
      unfolding extract_cost_data_def cost_try_body_def f by (rule refl)
    have d: "extract_debug_data ?h request = extract_debug_data h request"
      unfolding extract_debug_data_def f by (rule refl)
    show ?thesis unfolding aggregate_def b c d by (rule refl)
  qed
  have total: "\<exists>r. aggregate (h\<lparr>judgement := jd, usage := u, extracted_content := ec,
                     model_thoughts := mt\<rparr>) request gif dl conv = Inr r" for jd u ec mt
  proof -
    let ?h = "h\<lparr>judgement := jd, usage := u, extracted_content := ec, model_thoughts := mt\<rparr>"
    have q': "errors ?h = Inr raw" "final_result ?h = Inr fr" "is_done ?h = Inr dn"
      "is_successful ?h = Inr sc" "has_errors ?h = Inr he" "urls ?h = Inr us"
      "number_of_steps ?h = Inr n" "total_duration_seconds ?h = Inr dur"
      by (simp_all add: q)
    obtain cd' where c': "extract_cost_data ?h request = Inr cd'"
      using extract_cost_data_total [OF q'(7)] by blast
    obtain v' where d': "extract_debug_data ?h request = Inr [(''debug_data'', v')]"
      using extract_debug_data_total [OF q'(8) q'(7) q'(6) q'(5)] by blast
    from report_lookups [OF q' c' d', of gif dl conv] show ?thesis by blast
  qed
  show ?thesis
    apply (rule exI [of _ report], rule exI [of _ cd], rule exI [of _ v])
    apply (simp add: agg c d dict_get_def l jv opt_str_def same)
    apply (rule allI)+
    apply (rule total)
    done
qed


theorem C3_judge_failure_contained_witness:
  "judgement history0 = Attr (Inl ''judge unavailable'') \<and>
   errors history0 = Inr [None, Some ''Error code: 429 rate_limit_exceeded''] \<and>
   final_result history0 = Inr (Some ''done'') \<and> is_done history0 = Inr True \<and>
   is_successful history0 = Inr None \<and> has_errors history0 = Inr True \<and>
   urls history0 = Inr [''https://example.com/''] \<and> number_of_steps history0 = Inr 3 \<and>
   total_duration_seconds history0 = Inr 12 \<and>
   aggregate history0 request0 None [] None = Inr report0 \<and>
   dict_get report0 ''judge_verdict'' = PNone \<and>
   dict_get report0 ''steps'' = PInt 3 \<and>
   dict_get report0 ''urls'' = PList [PStr ''https://example.com/'']"
proof -
  have j: "judgement history0 = Attr (Inl ''judge unavailable'')" by (simp add: history0_def)
  have q: "errors history0 = Inr [None, Some ''Error code: 429 rate_limit_exceeded'']"
    "final_result history0 = Inr (Some ''done'')" "is_done history0 = Inr True"
    "is_successful history0 = Inr None" "has_errors history0 = Inr True"
    "urls history0 = Inr [''https://example.com/'']" "number_of_steps history0 = Inr 3"
    "total_duration_seconds history0 = Inr 12"
    by (simp_all add: history0_def)
  show ?thesis
    using C3_judge_failure_contained [OF j q, of request0 None "[]" None] aggregate0 j q
    by auto
qed





text \<open>
  Cancellation. A task id that is not in the registry gets the "not found or already
  completed" answer and leaves the state alone; a task id that is in the registry gets the
  success answer, whatever the state of its task.
\<close>

lemma cancel_unknown_task:
  "active_tasks st tid = None \<Longrightarrow>
   cancel_browser_task tid st =
     (Inr [(''success'', PBool False),
           (''error'', PStr ''Task not found or already completed''),
           (''task_id'', PStr tid)], st)"
  by (simp add: cancel_browser_task_def)

lemma cancel_registered_task:
  "active_tasks st tid = Some a \<Longrightarrow> bt_agent (heap st a) = None \<Longrightarrow>
   fst (cancel_browser_task tid st) =
     Inr [(''success'', PBool True), (''task_id'', PStr tid),
          (''message'', PStr ''Task cancelled''),
          (''partial_result'', opt_str (bt_partial_result (heap st a)))]"
  by (simp add: cancel_browser_task_def cancel_def get_partial_result_def Let_def)

lemma respond_report0:
  "\<exists>resp. respond_completed ''t1'' t report0 = Inr resp \<and> r_success resp \<and>
      r_task_id resp = ''t1''"
  by (simp add: respond_completed_def Let_def determine_success_def response_error_def
      dict_get_def dict_get_or_def report0_def py_or_def)

lemma execute0:
  "\<exists>resp. execute_task request0 env0 initial_state =
      (Inr resp,
       \<lparr> heap = (\<lambda>a. BrowserTask [] None)(0 := BrowserTask ''t1'' None),
         next_addr = Suc 0,
         active_tasks = [''t1'' \<mapsto> 0] \<rparr>) \<and> r_success resp \<and> r_task_id resp = ''t1''"
proof -
  obtain resp where r: "respond_completed ''t1'' (clock env0 1 - clock env0 0) report0 = Inr resp"
    and s: "r_success resp" "r_task_id resp = ''t1''"
    using respond_report0 by blast
  have "execute_task request0 env0 initial_state =
      (Inr resp,
       \<lparr> heap = (\<lambda>a. BrowserTask [] None)(0 := BrowserTask ''t1'' None),
         next_addr = Suc 0,
         active_tasks = [''t1'' \<mapsto> 0] \<rparr>)"
    using r
    by (simp add: execute_task_def request_task_id_def register_task_def finish_task_def
        initial_state_def request0_def env0_def BrowserTask_def Let_def)
  with s show ?thesis by blast
qed

text \<open>
  Claim C1 (evaluation at the failing input). A request with task id \<open>t1\<close> runs to
  natural completion and is answered with success. Nothing removes its entry from
  \<open>active_tasks\<close>, so a cancellation of \<open>t1\<close> afterwards is answered with
  \<open>success = True\<close> and "Task cancelled" instead of "not found or already completed",
  a second cancellation gets the same answer, and the completed task's status is
  overwritten with \<open>cancelled\<close>.
\<close>

theorem C1_cancel_after_completion:
  "(let (r, st1) = execute_task request0 env0 initial_state;
        (c1, st2) = cancel_browser_task ''t1'' st1;
        (c2, st3) = cancel_browser_task ''t1'' st2
    in (\<exists>resp. r = Inr resp \<and> r_success resp \<and> r_task_id resp = ''t1'') \<and>
       c1 = Inr [(''success'', PBool True), (''task_id'', PStr ''t1''),
                 (''message'', PStr ''Task cancelled''), (''partial_result'', PNone)] \<and>
       c2 = c1 \<and>
       bt_status (heap st3 0) = ''cancelled'')"
proof -
  from execute0 obtain resp where
    e: "execute_task request0 env0 initial_state =
      (Inr resp,
       \<lparr> heap = (\<lambda>a. BrowserTask [] None)(0 := BrowserTask ''t1'' None),
         next_addr = Suc 0,
         active_tasks = [''t1'' \<mapsto> 0] \<rparr>)"
    and s: "r_success resp" "r_task_id resp = ''t1''"
    by blast
  show ?thesis
    by (simp add: e s cancel_browser_task_def cancel_def get_partial_result_def
        BrowserTask_def opt_str_def Let_def)
qed

section \<open>Properties of the task body\<close>

lemma try_body_events:
  "fst (try_body request env) = [AgentRun] \<or>
   fst (try_body request env) = [AgentRun, ExportStorageState] \<or>
   fst (try_body request env) = [AgentRun, ExportStorageState, ExportSessionStorage]"
  by (simp add: try_body_def split: sum.splits)

text \<open>Once the agent has been built, the browser is stopped on every path.\<close>

lemma stop_after_agent_created:
  assumes "CreateAgent \<in> set (fst (run_agent_task request env))"
    and "create_agent_out env = Inr gif_path"
  shows "BrowserStop \<in> set (fst (run_agent_task request env))"
  using assms unfolding run_agent_task_def finally_stop_def Let_def
  by (auto split: sum.splits if_splits)

text \<open>Whatever was exported was exported before the browser was stopped.\<close>

lemma export_before_stop:
  assumes "ev = ExportStorageState \<or> ev = ExportSessionStorage"
    and "ev \<in> set (fst (run_agent_task request env))"
  shows "ev \<in> set (takeWhile (\<lambda>x. x \<noteq> BrowserStop) (fst (run_agent_task request env)))"
  using assms try_body_events [of request env]
  unfolding run_agent_task_def finally_stop_def Let_def
  by (auto split: sum.splits if_splits)

text \<open>
  Claim C2 (evaluation at the failing input). The \<open>try ... finally\<close> that stops the
  browser begins only after the session storage has been restored and the agent has
  been built. When building the agent raises after \<open>browser.start()\<close> has returned,
  the task body is left with the browser started and \<open>browser.stop()\<close> never called;
  likewise when the deadline cancels the body during the restoration.
\<close>

theorem C2_browser_not_stopped:
  "fst (run_agent_task request0 env_agent_fails) =
     [BrowserStart, RestoreSessionStorage, CreateAgent] \<and>
   snd (run_agent_task request0 env_agent_fails) =
     Inl (PyException ''Agent: invalid configuration'') \<and>
   BrowserStart \<in> set (fst (run_agent_task request0 env_agent_fails)) \<and>
   BrowserStop \<notin> set (fst (run_agent_task request0 env_agent_fails)) \<and>
   fst (run_agent_task request0 env_cancelled_early) = [BrowserStart, RestoreSessionStorage] \<and>
   snd (run_agent_task request0 env_cancelled_early) = Inl PyCancelledError"
  by (simp add: run_agent_task_def env_agent_fails_def env_cancelled_early_def request0_def)

section \<open>Properties of the session storage snapshot\<close>









section \<open>Properties of download reconciliation\<close>



lemma relative_to_root [simp]:
  "relative_to (downloads_root @ rel @ [x]) downloads_root = Some (rel @ [x])"
  by (simp add: relative_to_def)





























end
